theory Spec2Isabelle
  imports Complex_Main "HOL-Library.Multiset"
begin

section \<open>JavaScript values\<close>

text \<open>
  The three edge functions (telegram-webhook, ai-classify, ai-summarize-range) are
  TypeScript on Deno. A JavaScript number is a double: it is modelled as the real it
  denotes, together with the three non-finite values. Where the code adds, multiplies or
  divides instants, delays and scores, the result passes through \<open>rnd\<close>, the rounding
  of a real to the nearest double, which the functions take as a parameter. Instants are
  milliseconds since the epoch. A value that may be \<^verbatim>\<open>undefined\<close> is an \<open>option\<close> with
  \<open>None\<close> for \<^verbatim>\<open>undefined\<close>. A JSON object is the list of its properties, each name
  once.

  A JavaScript string that the functions inspect (a message text, a row id) is the list
  of its UTF-16 code units; \<open>js\<close> gives the string of a literal.
\<close>

type_synonym jsstring = "nat list"

definition js :: "string \<Rightarrow> jsstring" where
  "js s = map of_char s"

datatype jsnum = NaN | NegInf | Fin real | PosInf

datatype json =
    JNull
  | JBool bool
  | JNum real
  | JStr string
  | JArr "json list"
  | JObj "(string \<times> json) list"

datatype error =
    PgError string
  | RangeError
  | TypeError
  | SyntaxError
  | FetchFailed
  | InternalCallFailed

text \<open>\<^verbatim>\<open>!!v\<close> on a JSON value or \<^verbatim>\<open>undefined\<close>.\<close>

fun truthy :: "json option \<Rightarrow> bool" where
  "truthy None = False"
| "truthy (Some JNull) = False"
| "truthy (Some (JBool b)) = b"
| "truthy (Some (JNum r)) = (r \<noteq> 0)"
| "truthy (Some (JStr s)) = (s \<noteq> [])"
| "truthy (Some (JArr xs)) = True"
| "truthy (Some (JObj kvs)) = True"

text \<open>\<^verbatim>\<open>!!v\<close> on a nullable boolean column, and \<^verbatim>\<open>Number(b)\<close> on a boolean.\<close>

definition truthy_col :: "bool option \<Rightarrow> bool" where
  "truthy_col v = (case v of None \<Rightarrow> False | Some b \<Rightarrow> b)"

definition Number_bool :: "bool \<Rightarrow> real" where
  "Number_bool b = (if b then 1 else 0)"

text \<open>
  \<^verbatim>\<open>new Date(t).toISOString()\<close>: the Date constructor clips the time value (beyond
  8.64e15 ms it is invalid, otherwise it is truncated towards zero) and \<^verbatim>\<open>toISOString\<close>
  throws a RangeError on an invalid date. The ISO string is kept as its millisecond count.
\<close>

definition Date_toISOString :: "jsnum \<Rightarrow> error + int" where
  "Date_toISOString t =
     (case t of
        Fin r \<Rightarrow>
          if \<bar>r\<bar> \<le> 8640000000000000
          then Inr (if 0 \<le> r then \<lfloor>r\<rfloor> else \<lceil>r\<rceil>)
          else Inl RangeError
      | _ \<Rightarrow> Inl RangeError)"

fun Math_min :: "jsnum \<Rightarrow> jsnum \<Rightarrow> jsnum" where
  "Math_min NaN y = NaN"
| "Math_min x NaN = NaN"
| "Math_min NegInf y = NegInf"
| "Math_min x NegInf = NegInf"
| "Math_min PosInf y = y"
| "Math_min x PosInf = x"
| "Math_min (Fin a) (Fin b) = Fin (min a b)"

fun Math_max :: "jsnum \<Rightarrow> jsnum \<Rightarrow> jsnum" where
  "Math_max NaN y = NaN"
| "Math_max x NaN = NaN"
| "Math_max PosInf y = PosInf"
| "Math_max x PosInf = PosInf"
| "Math_max NegInf y = y"
| "Math_max x NegInf = x"
| "Math_max (Fin a) (Fin b) = Fin (max a b)"

text \<open>\<^verbatim>\<open>x || d\<close> on numbers: \<^verbatim>\<open>NaN\<close> and \<^verbatim>\<open>0\<close> are falsy.\<close>

definition num_or :: "jsnum \<Rightarrow> jsnum \<Rightarrow> jsnum" where
  "num_or x d = (if x = NaN \<or> x = Fin 0 then d else x)"

text \<open>
  Arithmetic on time values: \<^verbatim>\<open>Date.now() + x * k\<close> and \<^verbatim>\<open>Date.now() - x * k\<close> for a
  positive constant \<open>k\<close>. The product and the sum are each rounded to a double.
\<close>

definition time_plus :: "(real \<Rightarrow> real) \<Rightarrow> int \<Rightarrow> jsnum \<Rightarrow> real \<Rightarrow> jsnum" where
  "time_plus rnd now x k =
     (case x of
        NaN \<Rightarrow> NaN
      | Fin r \<Rightarrow> Fin (rnd (real_of_int now + rnd (r * k)))
      | PosInf \<Rightarrow> PosInf
      | NegInf \<Rightarrow> NegInf)"

definition time_minus :: "(real \<Rightarrow> real) \<Rightarrow> int \<Rightarrow> jsnum \<Rightarrow> real \<Rightarrow> jsnum" where
  "time_minus rnd now x k =
     (case x of
        NaN \<Rightarrow> NaN
      | Fin r \<Rightarrow> Fin (rnd (real_of_int now - rnd (r * k)))
      | PosInf \<Rightarrow> NegInf
      | NegInf \<Rightarrow> PosInf)"

section \<open>The store\<close>

text \<open>
  Rows of the tables \<^verbatim>\<open>messages\<close>, \<^verbatim>\<open>followups\<close>, \<^verbatim>\<open>embeddings\<close> and \<^verbatim>\<open>summaries\<close>,
  with the columns the functions read and write. Row ids are the strings the functions
  pass around; instants are millisecond counts; a nullable column is an \<open>option\<close>. The raw
  \<^verbatim>\<open>payload\<close> column is written once and never read, and is left out.
\<close>

record message =
  msg_id :: jsstring
  telegram_update_id :: "int option"
  telegram_message_id :: "int option"
  chat_id :: int
  from_user_id :: string
  msg_text :: jsstring
  created_at :: int
  is_question :: "bool option"
  needs_reply :: "bool option"
  followup :: "bool option"
  urgency_score :: "real option"
  topics :: "json option"
  entities :: "json option"
  sentiment :: "real option"
  replied :: "bool option"

datatype fstatus = Open | Done

record followup_row =
  status :: fstatus
  due_at :: "int option"
  resolved_at :: "int option"

record summary =
  start_date :: string
  end_date :: string
  summary_md :: json

record db =
  messages :: "message list"
  followups :: "jsstring \<rightharpoonup> followup_row"
  embeddings :: "jsstring \<rightharpoonup> real list"
  summaries :: "summary list"

section \<open>telegram-webhook: review ranking\<close>



text \<open>
  The score as the code computes it, in doubles: the quotient, the product with 1.5 and
  each sum are rounded by \<open>rnd\<close> (the other products are of small whole numbers or by 1,
  and exact), and \<open>ex\<close> is \<^verbatim>\<open>Math.exp\<close> as the engine computes it.
\<close>

definition ageDays_fl :: "(real \<Rightarrow> real) \<Rightarrow> int \<Rightarrow> message \<Rightarrow> real" where
  "ageDays_fl rnd now m = max 0 (rnd (real_of_int (now - created_at m) / 86400000))"

definition score_fl :: "(real \<Rightarrow> real) \<Rightarrow> (real \<Rightarrow> real) \<Rightarrow> int \<Rightarrow> message \<Rightarrow> real" where
  "score_fl rnd ex now m =
     rnd (rnd (rnd (rnd (3 * Number_bool (truthy_col (is_question m)) +
                         2 * Number_bool (truthy_col (followup m))) +
                    rnd (1.5 * (case urgency_score m of None \<Rightarrow> 0 | Some u \<Rightarrow> u))) +
               2 * Number_bool (\<not> truthy_col (replied m))) +
          1 * ex (- ageDays_fl rnd now m))"

text \<open>
  Lines 157-158. \<^verbatim>\<open>Array.prototype.sort\<close> is a stable sort, as is \<open>sort_key\<close>; the
  comparator \<^verbatim>\<open>b.score - a.score\<close> is negative, zero or positive as the double
  \<^verbatim>\<open>b.score\<close> is below, equal to or above \<^verbatim>\<open>a.score\<close>, so it orders by the negated
  computed score.
\<close>

definition scored ::
  "(real \<Rightarrow> real) \<Rightarrow> (real \<Rightarrow> real) \<Rightarrow> int \<Rightarrow> message list \<Rightarrow> message list" where
  "scored rnd ex now data = take 10 (sort_key (\<lambda>m. - score_fl rnd ex now m) data)"


text \<open>
  The query of lines 134-139: rows created at or after \<open>since\<close>, latest first, at most
  300. Rows with the same instant are kept in table order.
\<close>

definition review_query :: "int \<Rightarrow> message list \<Rightarrow> message list" where
  "review_query since tbl =
     take 300 (sort_key (\<lambda>m. - created_at m) (filter (\<lambda>m. since \<le> created_at m) tbl))"

text \<open>
  \<^verbatim>\<open>handleReview\<close> up to the list it renders: \<open>fault\<close> is the store's failure of the
  query, if any, which the function rethrows.
\<close>

definition handleReview ::
  "(real \<Rightarrow> real) \<Rightarrow> (real \<Rightarrow> real) \<Rightarrow> int \<Rightarrow> error option \<Rightarrow> jsnum \<Rightarrow> db
    \<Rightarrow> error + message list" where
  "handleReview rnd ex now fault days d =
     (case Date_toISOString (time_minus rnd now days 86400000) of
        Inl e \<Rightarrow> Inl e
      | Inr since \<Rightarrow>
          (case fault of
             Some e \<Rightarrow> Inl e
           | None \<Rightarrow> Inr (scored rnd ex now (review_query since (messages d)))))"


section \<open>telegram-webhook: commands, ingestion and follow-up actions\<close>

text \<open>
  \<^verbatim>\<open>parseCommand\<close>, lines 67-71. The code units that \<^verbatim>\<open>trim\<close> strips and \<^verbatim>\<open>\s\<close>
  matches are the same: tab to carriage return, the space, U+00A0, U+1680, U+2000 to
  U+200A, U+2028, U+2029, U+202F, U+205F, U+3000 and U+FEFF.
\<close>

definition is_space :: "nat \<Rightarrow> bool" where
  "is_space c =
     ((0x09 \<le> c \<and> c \<le> 0x0D) \<or> c = 0x20 \<or> c = 0xA0 \<or> c = 0x1680 \<or>
      (0x2000 \<le> c \<and> c \<le> 0x200A) \<or> c = 0x2028 \<or> c = 0x2029 \<or> c = 0x202F \<or>
      c = 0x205F \<or> c = 0x3000 \<or> c = 0xFEFF)"

definition trim :: "jsstring \<Rightarrow> jsstring" where
  "trim s = rev (dropWhile is_space (rev (dropWhile is_space s)))"

text \<open>
  \<^verbatim>\<open>s.split(/\s+/)\<close>: every maximal run of whitespace separates two pieces, so the
  result is never empty and a leading or trailing run gives an empty piece.
\<close>

fun split_ws :: "jsstring \<Rightarrow> jsstring list" where
  "split_ws [] = [[]]"
| "split_ws (c # cs) =
     (if is_space c
      then (case cs of
              [] \<Rightarrow> [] # split_ws cs
            | c' # cs' \<Rightarrow> if is_space c' then split_ws cs else [] # split_ws cs)
      else (case split_ws cs of
              [] \<Rightarrow> [[c]]
            | p # ps \<Rightarrow> (c # p) # ps))"

text \<open>Splitting at a separator character, and joining with a separator.\<close>

fun split_on :: "nat \<Rightarrow> jsstring \<Rightarrow> jsstring list" where
  "split_on sep [] = [[]]"
| "split_on sep (c # cs) =
     (if c = sep then [] # split_on sep cs
      else (case split_on sep cs of
              [] \<Rightarrow> [[c]]
            | p # ps \<Rightarrow> (c # p) # ps))"

fun join :: "jsstring \<Rightarrow> jsstring list \<Rightarrow> jsstring" where
  "join sep [] = []"
| "join sep [x] = x"
| "join sep (x # y # ys) = x @ sep @ join sep (y # ys)"

text \<open>The pair \<open>(name, args)\<close>; \<open>None\<close> is the \<^verbatim>\<open>null\<close> name.\<close>

definition parseCommand :: "jsstring \<Rightarrow> jsstring option \<times> jsstring" where
  "parseCommand txt =
     (case split_ws (trim txt) of
        [] \<Rightarrow> (None, [])
      | cmd # rest \<Rightarrow>
          ((case cmd of
              c # cs \<Rightarrow> if c = of_char (CHR ''/'') then Some cs else None
            | [] \<Rightarrow> None),
           join (js '' '') rest))"

text \<open>\<^verbatim>\<open>if (name)\<close>: \<^verbatim>\<open>null\<close> and the empty string are falsy.\<close>

definition is_command :: "jsstring \<Rightarrow> bool" where
  "is_command txt = (case fst (parseCommand txt) of None \<Rightarrow> False | Some n \<Rightarrow> n \<noteq> [])"

text \<open>The Telegram update, with the fields the handler reads.\<close>

record tg_message =
  tg_message_id :: "int option"
  tg_chat_id :: int
  tg_text :: "jsstring option"
  tg_date :: "int option"

record callback_query =
  cq_id :: string
  cq_data :: "jsstring option"

record update =
  update_id :: "int option"
  upd_message :: "tg_message option"
  edited_message :: "tg_message option"
  upd_callback_query :: "callback_query option"

text \<open>
  Modelled from the spec: the schema of \<^verbatim>\<open>messages\<close> is not part of the sources. The id
  is unique and generated by the store, the external reference (the Telegram update id) is
  unique when present, metadata columns start unset and \<^verbatim>\<open>replied\<close> starts false. The
  generated id is the string of hashes one longer than every id in the table.
\<close>

definition fresh_id :: "message list \<Rightarrow> jsstring" where
  "fresh_id tbl =
     replicate (Suc (foldr max (map (\<lambda>m. length (msg_id m)) tbl) 0)) (of_char (CHR ''#''))"

definition new_message_row ::
  "int option \<Rightarrow> int option \<Rightarrow> int \<Rightarrow> string \<Rightarrow> jsstring \<Rightarrow> int \<Rightarrow> message" where
  "new_message_row upd_id tg_id chat usr txt created =
     \<lparr>msg_id = [], telegram_update_id = upd_id, telegram_message_id = tg_id, chat_id = chat,
      from_user_id = usr, msg_text = txt, created_at = created,
      is_question = None, needs_reply = None, followup = None, urgency_score = None,
      topics = None, entities = None, sentiment = None, replied = Some False\<rparr>"

definition ref_stored :: "int option \<Rightarrow> message list \<Rightarrow> bool" where
  "ref_stored r tbl = (r \<noteq> None \<and> (\<exists>m \<in> set tbl. telegram_update_id m = r))"

text \<open>
  The insert request of lines 113-125 with its \<^verbatim>\<open>{data, error}\<close> answer: \<open>fault\<close> is a
  failure of the store itself, if any; a collision on the external reference is the
  Postgres error 23505.
\<close>

definition messages_insert ::
  "error option \<Rightarrow> message \<Rightarrow> message list \<Rightarrow> (error + jsstring) \<times> message list" where
  "messages_insert fault row tbl =
     (case fault of
        Some e \<Rightarrow> (Inl e, tbl)
      | None \<Rightarrow>
          if ref_stored (telegram_update_id row) tbl then (Inl (PgError ''23505''), tbl)
          else (Inr (fresh_id tbl), tbl @ [row\<lparr>msg_id := fresh_id tbl\<rparr>]))"

text \<open>
  \<^verbatim>\<open>insertMessage\<close>, lines 101-130. \<^verbatim>\<open>createdAt.toISOString()\<close> is evaluated while the
  request is built. The result is the thrown error, or \<^verbatim>\<open>data?.id ?? null\<close>.
\<close>

definition insertMessage ::
  "error option \<Rightarrow> update \<Rightarrow> int \<Rightarrow> string \<Rightarrow> jsstring \<Rightarrow> jsnum \<Rightarrow> db
    \<Rightarrow> (error + jsstring option) \<times> db" where
  "insertMessage fault upd chatId fromUserId txt createdAt d =
     (let telegram_update_id = update_id upd;
          telegram_message_id =
            (case (case upd_message upd of None \<Rightarrow> None | Some m \<Rightarrow> tg_message_id m) of
               Some i \<Rightarrow> Some i
             | None \<Rightarrow> (case edited_message upd of None \<Rightarrow> None | Some m \<Rightarrow> tg_message_id m))
      in case Date_toISOString createdAt of
           Inl e \<Rightarrow> (Inl e, d)
         | Inr created \<Rightarrow>
             (case messages_insert fault
                     (new_message_row telegram_update_id telegram_message_id chatId fromUserId
                        txt created)
                     (messages d) of
                (Inr i, tbl) \<Rightarrow> (Inr (Some i), d\<lparr>messages := tbl\<rparr>)
              | (Inl e, tbl) \<Rightarrow>
                  if e \<noteq> PgError ''23505'' then (Inl e, d\<lparr>messages := tbl\<rparr>)
                  else (Inr None, d\<lparr>messages := tbl\<rparr>)))"

text \<open>
  \<^verbatim>\<open>handleDone\<close>, lines 198-221: two updates whose answers are not inspected; the
  notification sent afterwards is transport. \<open>now\<close> is the clock reading.
\<close>

definition handleDone :: "int \<Rightarrow> jsstring \<Rightarrow> db \<Rightarrow> db" where
  "handleDone now messageId d =
     d\<lparr>followups :=
          (case followups d messageId of
             None \<Rightarrow> followups d
           | Some f \<Rightarrow> (followups d)(messageId \<mapsto> f\<lparr>status := Done, resolved_at := Some now\<rparr>)),
        messages :=
          map (\<lambda>m. if msg_id m = messageId then m\<lparr>replied := Some True\<rparr> else m) (messages d)\<rparr>"

text \<open>
  Modelled from the spec: the schema of \<^verbatim>\<open>followups\<close> is not part of the sources; the
  key \<^verbatim>\<open>message_id\<close> is its only constraint, and a new row starts with no due date
  and not resolved. The upsert on \<^verbatim>\<open>message_id\<close> writes the columns of its payload
  (\<open>due = None\<close> when \<^verbatim>\<open>due_at\<close> is not among them): a new row takes them and leaves
  the others unset, an existing row has them overwritten and keeps the others.
\<close>

definition followups_upsert ::
  "jsstring \<Rightarrow> fstatus \<Rightarrow> int option option \<Rightarrow> (jsstring \<rightharpoonup> followup_row)
    \<Rightarrow> (jsstring \<rightharpoonup> followup_row)" where
  "followups_upsert messageId st due tbl =
     (case tbl messageId of
        None \<Rightarrow>
          tbl(messageId \<mapsto>
            \<lparr>status = st, due_at = (case due of None \<Rightarrow> None | Some v \<Rightarrow> v), resolved_at = None\<rparr>)
      | Some f \<Rightarrow>
          tbl(messageId \<mapsto>
            f\<lparr>status := st, due_at := (case due of None \<Rightarrow> due_at f | Some v \<Rightarrow> v)\<rparr>))"

text \<open>
  \<^verbatim>\<open>handleSnooze\<close>, lines 223-247: \<^verbatim>\<open>toISOString\<close> may throw before the request is
  made; the answer of the upsert is not inspected. With an \<^verbatim>\<open>undefined\<close> id the request
  carries no key and touches the row of no message.
\<close>

definition handleSnooze ::
  "(real \<Rightarrow> real) \<Rightarrow> int \<Rightarrow> jsstring option \<Rightarrow> jsnum \<Rightarrow> db \<Rightarrow> error + db" where
  "handleSnooze rnd now messageId hours d =
     (case Date_toISOString (time_plus rnd now hours 3600000) of
        Inl e \<Rightarrow> Inl e
      | Inr due \<Rightarrow>
          (case messageId of
             None \<Rightarrow> Inr d
           | Some i \<Rightarrow>
               Inr (d\<lparr>followups := followups_upsert i Open (Some (Some due)) (followups d)\<rparr>)))"

text \<open>
  A sequence of snooze requests for one id, each with its clock reading and its delay.
  The requests are independent: one that throws leaves the store as it was.
\<close>

fun snooze_seq :: "(real \<Rightarrow> real) \<Rightarrow> jsstring \<Rightarrow> (int \<times> jsnum) list \<Rightarrow> db \<Rightarrow> db" where
  "snooze_seq rnd messageId [] d = d"
| "snooze_seq rnd messageId ((now, hours) # cs) d =
     snooze_seq rnd messageId cs
       (case handleSnooze rnd now (Some messageId) hours d of
          Inl e \<Rightarrow> d
        | Inr d' \<Rightarrow> d')"

text \<open>
  The handler of lines 249-315. What it consumes from outside is collected in \<open>env\<close>:
  the clock, the outcome of \<^verbatim>\<open>upsertUser\<close> (the thrown error or the user's id), the
  store's failure of the insert, the failure of the one fallible request a command makes
  and the failure of the internal call to the classifier. Calls to the other two functions
  are logged, not run. Sending the replies is the chat transport and is left out. An
  \<^verbatim>\<open>undefined\<close> id of a callback reaches the filter of \<^verbatim>\<open>handleDone\<close> as the text
  \<^verbatim>\<open>undefined\<close>.

  The numeric built-ins of the JavaScript engine are collected in \<open>engine\<close>:
  \<^verbatim>\<open>Number\<close> on a string, the rounding of a real to the nearest double, and
  \<^verbatim>\<open>Math.exp\<close>.
\<close>

record engine =
  to_number :: "jsstring \<Rightarrow> jsnum"
  round_double :: "real \<Rightarrow> real"
  math_exp :: "real \<Rightarrow> real"

record env =
  clock :: int
  user_result :: "error + string"
  insert_fault :: "error option"
  command_fault :: "error option"
  internal_fault :: "error option"

datatype internal_call = AiClassify jsstring | AiSummarizeRange jsnum

datatype wh_response = Forbidden | OkTrue

definition the_default :: "'a \<Rightarrow> 'a option \<Rightarrow> 'a" where
  "the_default dflt v = (case v of None \<Rightarrow> dflt | Some x \<Rightarrow> x)"

definition nth_opt :: "'a list \<Rightarrow> nat \<Rightarrow> 'a option" where
  "nth_opt xs n = (if n < length xs then Some (xs ! n) else None)"

text \<open>
  \<^verbatim>\<open>Number(h || 24)\<close>: \<open>Number_str\<close> is JavaScript's conversion of a string to a number.
\<close>

definition hours_of :: "(jsstring \<Rightarrow> jsnum) \<Rightarrow> jsstring option \<Rightarrow> jsnum" where
  "hours_of Number_str h =
     (case h of None \<Rightarrow> Fin 24 | Some s \<Rightarrow> if s = [] then Fin 24 else Number_str s)"

text \<open>\<^verbatim>\<open>Math.max(1, Math.min(30, Number(args) || dflt))\<close>.\<close>

definition days_of :: "(jsstring \<Rightarrow> jsnum) \<Rightarrow> jsstring \<Rightarrow> real \<Rightarrow> jsnum" where
  "days_of Number_str a dflt =
     Math_max (Fin 1) (Math_min (Fin 30) (num_or (Number_str a) (Fin dflt)))"

text \<open>The \<^verbatim>\<open>replace\<close> of line 292: a leading and a trailing double quote are removed.\<close>

definition strip_quotes :: "jsstring \<Rightarrow> jsstring" where
  "strip_quotes s =
     (let t = (case s of c # cs \<Rightarrow> if c = 0x22 then cs else s | [] \<Rightarrow> [])
      in if t \<noteq> [] \<and> last t = 0x22 then butlast t else t)"

text \<open>
  The command branch, lines 285-306: the thrown error if any, the store and the internal
  calls made.
\<close>

definition run_command ::
  "engine \<Rightarrow> env \<Rightarrow> jsstring \<Rightarrow> jsstring \<Rightarrow> db \<Rightarrow> error option \<times> db \<times> internal_call list"
  where
  "run_command E ev name args d =
     (if name = js ''review'' then
        (case handleReview (round_double E) (math_exp E) (clock ev) (command_fault ev)
                (days_of (to_number E) args 3) d of
           Inl e \<Rightarrow> (Some e, d, [])
         | Inr items \<Rightarrow> (None, d, []))
      else if name = js ''summary'' then
        (command_fault ev, d, [AiSummarizeRange (days_of (to_number E) args 7)])
      else if name = js ''dtg'' then
        (if strip_quotes (trim args) = [] then (None, d, []) else (command_fault ev, d, []))
      else if name = js ''done'' then
        (None, handleDone (clock ev) (trim args) d, [])
      else if name = js ''snooze'' then
        (let parts = split_ws args
         in case handleSnooze (round_double E) (clock ev) (nth_opt parts 0)
                   (hours_of (to_number E) (nth_opt parts 1)) d of
              Inl e \<Rightarrow> (Some e, d, [])
            | Inr d' \<Rightarrow> (None, d', []))
      else (None, d, []))"

definition serve_webhook ::
  "engine \<Rightarrow> string \<Rightarrow> env \<Rightarrow> string option \<Rightarrow> update \<Rightarrow> db
    \<Rightarrow> (error + wh_response) \<times> db \<times> internal_call list" where
  "serve_webhook E secret ev tgHeader upd d =
     (if tgHeader \<noteq> Some secret then (Inr Forbidden, d, [])
      else
        (case upd_callback_query upd of
           Some cq \<Rightarrow>
             (let parts = split_on (of_char (CHR '':''))
                            (case cq_data cq of None \<Rightarrow> [] | Some s \<Rightarrow> s);
                  action = nth_opt parts 0;
                  ident = nth_opt parts 1;
                  hours = nth_opt parts 2
              in if action = Some (js ''done'') then
                   (Inr OkTrue,
                    handleDone (clock ev)
                      (case ident of None \<Rightarrow> js ''undefined'' | Some i \<Rightarrow> i) d,
                    [])
                 else if action = Some (js ''snooze'') then
                   (case handleSnooze (round_double E) (clock ev) ident
                           (hours_of (to_number E) hours) d of
                      Inl e \<Rightarrow> (Inl e, d, [])
                    | Inr d' \<Rightarrow> (Inr OkTrue, d', []))
                 else (Inr OkTrue, d, []))
         | None \<Rightarrow>
             (case (case upd_message upd of Some m \<Rightarrow> Some m | None \<Rightarrow> edited_message upd) of
                None \<Rightarrow> (Inr OkTrue, d, [])
              | Some msg \<Rightarrow>
                  (case tg_text msg of
                     None \<Rightarrow> (Inr OkTrue, d, [])
                   | Some txt \<Rightarrow>
                       (case user_result ev of
                          Inl e \<Rightarrow> (Inl e, d, [])
                        | Inr uid \<Rightarrow>
                            (case insertMessage (insert_fault ev) upd (tg_chat_id msg) uid txt
                                    (Fin (real_of_int
                                       ((case tg_date msg of
                                           Some s \<Rightarrow> s
                                         | None \<Rightarrow> clock ev div 1000) * 1000)))
                                    d of
                               (Inl e, d1) \<Rightarrow> (Inl e, d1, [])
                             | (Inr insertedId, d1) \<Rightarrow>
                                 (case parseCommand txt of
                                    (name, args) \<Rightarrow>
                                      if is_command txt then
                                        (case run_command E ev (the_default [] name) args d1 of
                                           (Some e, d2, calls) \<Rightarrow> (Inl e, d2, calls)
                                         | (None, d2, calls) \<Rightarrow> (Inr OkTrue, d2, calls))
                                      else
                                        (case insertedId of
                                           None \<Rightarrow> (Inr OkTrue, d1, [])
                                         | Some i \<Rightarrow>
                                             if i = [] then (Inr OkTrue, d1, [])
                                             else
                                               (case internal_fault ev of
                                                  Some e \<Rightarrow> (Inl e, d1, [AiClassify i])
                                                | None \<Rightarrow> (Inr OkTrue, d1, [AiClassify i]))))))))))"

section \<open>ai-classify\<close>

text \<open>
  What \<^verbatim>\<open>fetch\<close> and \<^verbatim>\<open>r.json()\<close> can give: the request is rejected, the status is not
  OK, the body is not JSON, or the body is the JSON value \<open>j\<close>. A JSON number is taken to
  be finite.
\<close>

datatype http = FetchRejected | NotOk | BodyNotJson | Body json

text \<open>
  Optional chaining \<^verbatim>\<open>v?.k\<close> and \<^verbatim>\<open>v?.[0]\<close>. The property names used (\<^verbatim>\<open>choices\<close>,
  \<^verbatim>\<open>message\<close>, \<^verbatim>\<open>content\<close>, \<^verbatim>\<open>data\<close>, \<^verbatim>\<open>embedding\<close> and the field names of the
  classification) are properties of no string, number, boolean or array.
\<close>

definition opt_prop :: "json option \<Rightarrow> string \<Rightarrow> json option" where
  "opt_prop v k = (case v of Some (JObj kvs) \<Rightarrow> map_of kvs k | _ \<Rightarrow> None)"

definition opt_idx0 :: "json option \<Rightarrow> json option" where
  "opt_idx0 v =
     (case v of
        Some (JArr xs) \<Rightarrow> (case xs of [] \<Rightarrow> None | x # _ \<Rightarrow> Some x)
      | Some (JStr s) \<Rightarrow> (case s of [] \<Rightarrow> None | c # _ \<Rightarrow> Some (JStr [c]))
      | Some (JObj kvs) \<Rightarrow> map_of kvs ''0''
      | _ \<Rightarrow> None)"

text \<open>\<^verbatim>\<open>v ?? d\<close>.\<close>

definition nullish :: "json option \<Rightarrow> json \<Rightarrow> json" where
  "nullish v d = (case v of None \<Rightarrow> d | Some JNull \<Rightarrow> d | Some x \<Rightarrow> x)"

text \<open>
  \<^verbatim>\<open>openaiJSON\<close>, lines 47-94, given the upstream answer. \<open>JSON_parse\<close> is JavaScript's
  \<^verbatim>\<open>JSON.parse\<close> on a value (converted to a string first), \<open>None\<close> when it throws. The
  result is the thrown error or the value returned.
\<close>

definition raw_content :: "json \<Rightarrow> json" where
  "raw_content j =
     nullish (opt_prop (opt_prop (opt_idx0 (opt_prop (Some j) ''choices'')) ''message'') ''content'')
       (JStr ''{}'')"

definition openaiJSON :: "(json \<Rightarrow> json option) \<Rightarrow> http \<Rightarrow> error + json" where
  "openaiJSON JSON_parse r =
     (case r of
        FetchRejected \<Rightarrow> Inl FetchFailed
      | NotOk \<Rightarrow> Inr (JObj [])
      | BodyNotJson \<Rightarrow> Inl SyntaxError
      | Body j \<Rightarrow>
          (case JSON_parse (raw_content j) of
             Some v \<Rightarrow> Inr v
           | None \<Rightarrow> Inr (JObj [])))"

text \<open>\<^verbatim>\<open>openaiEmbed\<close>, lines 96-118; \<open>None\<close> is \<^verbatim>\<open>null\<close>.\<close>

definition openaiEmbed :: "http \<Rightarrow> error + json option" where
  "openaiEmbed r =
     (case r of
        FetchRejected \<Rightarrow> Inl FetchFailed
      | NotOk \<Rightarrow> Inr None
      | BodyNotJson \<Rightarrow> Inl SyntaxError
      | Body j \<Rightarrow>
          (case opt_prop (opt_idx0 (opt_prop (Some j) ''data'')) ''embedding'' of
             None \<Rightarrow> Inr None
           | Some JNull \<Rightarrow> Inr None
           | Some v \<Rightarrow> Inr (Some v)))"

text \<open>The object \<^verbatim>\<open>upd\<close> of lines 144-154; reading a property of \<^verbatim>\<open>null\<close> throws.\<close>

record cls_update =
  u_is_question :: bool
  u_needs_reply :: bool
  u_followup :: bool
  u_urgency_score :: real
  u_topics :: "json option"
  u_entities :: "json option"
  u_sentiment :: "real option"

definition classify_fields :: "json \<Rightarrow> error + cls_update" where
  "classify_fields cls =
     (if cls = JNull then Inl TypeError
      else Inr
        \<lparr>u_is_question = truthy (opt_prop (Some cls) ''is_question''),
         u_needs_reply = truthy (opt_prop (Some cls) ''needs_reply''),
         u_followup = truthy (opt_prop (Some cls) ''followup''),
         u_urgency_score =
           (case opt_prop (Some cls) ''urgency_score'' of Some (JNum r) \<Rightarrow> r | _ \<Rightarrow> 0),
         u_topics =
           (case opt_prop (Some cls) ''topics'' of Some (JArr xs) \<Rightarrow> Some (JArr xs) | _ \<Rightarrow> None),
         u_entities =
           (case opt_prop (Some cls) ''entities'' of
              Some (JArr xs) \<Rightarrow> Some (JArr xs)
            | Some (JObj kvs) \<Rightarrow> Some (JObj kvs)
            | _ \<Rightarrow> None),
         u_sentiment =
           (case opt_prop (Some cls) ''sentiment'' of Some (JNum r) \<Rightarrow> Some r | _ \<Rightarrow> None)\<rparr>)"

definition apply_cls_update :: "jsstring \<Rightarrow> cls_update \<Rightarrow> message list \<Rightarrow> message list" where
  "apply_cls_update messageId u tbl =
     map (\<lambda>m. if msg_id m = messageId
               then m\<lparr>is_question := Some (u_is_question u), needs_reply := Some (u_needs_reply u),
                      followup := Some (u_followup u),
                      urgency_score := Some (u_urgency_score u), topics := u_topics u,
                      entities := u_entities u, sentiment := u_sentiment u\<rparr>
               else m) tbl"

text \<open>
  \<^verbatim>\<open>Number(x)\<close> on a JSON value, with \<open>Number_str\<close> for strings. An array is converted
  through its string: the empty array gives 0, a one-element array the number of its
  element's string, a longer array \<^verbatim>\<open>NaN\<close>; so does an object.
\<close>

fun Number_json :: "(string \<Rightarrow> jsnum) \<Rightarrow> json \<Rightarrow> jsnum" where
  "Number_json Number_str JNull = Fin 0"
| "Number_json Number_str (JBool b) = Fin (if b then 1 else 0)"
| "Number_json Number_str (JNum r) = Fin r"
| "Number_json Number_str (JStr s) = Number_str s"
| "Number_json Number_str (JObj kvs) = NaN"
| "Number_json Number_str (JArr []) = Fin 0"
| "Number_json Number_str (JArr [JNull]) = Fin 0"
| "Number_json Number_str (JArr [JBool b]) = NaN"
| "Number_json Number_str (JArr [JNum r]) = Fin r"
| "Number_json Number_str (JArr [JStr s]) = Number_str s"
| "Number_json Number_str (JArr [JObj kvs]) = NaN"
| "Number_json Number_str (JArr [JArr xs]) = Number_json Number_str (JArr xs)"
| "Number_json Number_str (JArr (x # y # ys)) = NaN"

text \<open>Line 165: \<^verbatim>\<open>Array.isArray(vec) ? vec.map((x) => Number(x)) : []\<close>.\<close>

definition embedding_array :: "(string \<Rightarrow> jsnum) \<Rightarrow> json option \<Rightarrow> jsnum list" where
  "embedding_array Number_str vec =
     (case vec of Some (JArr xs) \<Rightarrow> map (Number_json Number_str) xs | _ \<Rightarrow> [])"

definition is_finite :: "jsnum \<Rightarrow> bool" where
  "is_finite x = (case x of Fin r \<Rightarrow> True | _ \<Rightarrow> False)"

definition fin_val :: "jsnum \<Rightarrow> real" where
  "fin_val x = (case x of Fin r \<Rightarrow> r | _ \<Rightarrow> 0)"

text \<open>
  The handler of lines 120-201. \<open>dims\<close> is \<^verbatim>\<open>OPENAI_EMBED_DIMENSIONS\<close>. From outside
  come the two upstream answers and the store's failures of the four requests: the load
  answers 404, the other three are logged and otherwise ignored.
\<close>

record cenv =
  load_fault :: "error option"
  chat_reply :: http
  update_fault :: "error option"
  embed_reply :: http
  embed_fault :: "error option"
  followup_fault :: "error option"

datatype cl_response = ClForbidden | MissingMessageId | NotFound | Classified cls_update nat

definition serve_classify ::
  "(json \<Rightarrow> json option) \<Rightarrow> (string \<Rightarrow> jsnum) \<Rightarrow> nat \<Rightarrow> string \<Rightarrow> cenv \<Rightarrow> string option
    \<Rightarrow> jsstring option \<Rightarrow> db \<Rightarrow> (error + cl_response) \<times> db" where
  "serve_classify JSON_parse Number_str dims secret ev got messageId d =
     (if got \<noteq> Some secret then (Inr ClForbidden, d)
      else
        (case messageId of
           None \<Rightarrow> (Inr MissingMessageId, d)
         | Some mid \<Rightarrow>
             if mid = [] then (Inr MissingMessageId, d)
             else if load_fault ev \<noteq> None then (Inr NotFound, d)
             else
               (case filter (\<lambda>m. msg_id m = mid) (messages d) of
                  [m] \<Rightarrow>
                    (case openaiJSON JSON_parse (chat_reply ev) of
                       Inl e \<Rightarrow> (Inl e, d)
                     | Inr cls \<Rightarrow>
                         (case classify_fields cls of
                            Inl e \<Rightarrow> (Inl e, d)
                          | Inr upd \<Rightarrow>
                              (let d1 = (if update_fault ev = None
                                         then d\<lparr>messages := apply_cls_update mid upd (messages d)\<rparr>
                                         else d)
                               in case openaiEmbed (embed_reply ev) of
                                    Inl e \<Rightarrow> (Inl e, d1)
                                  | Inr vec \<Rightarrow>
                                      (let arr = embedding_array Number_str vec;
                                           d2 = (if length arr = dims \<and> list_all is_finite arr
                                                 then (if embed_fault ev = None
                                                       then d1\<lparr>embeddings :=
                                                              (embeddings d1)(mid \<mapsto> map fin_val arr)\<rparr>
                                                       else d1)
                                                 else d1);
                                           d3 = (if u_followup upd \<or> u_is_question upd
                                                 then (if followup_fault ev = None
                                                       then d2\<lparr>followups :=
                                                              followups_upsert mid Open None
                                                                (followups d2)\<rparr>
                                                       else d2)
                                                 else d2)
                                       in (Inr (Classified upd (length arr)), d3)))))
                | _ \<Rightarrow> (Inr NotFound, d))))"

section \<open>ai-summarize-range\<close>

text \<open>
  The calendar date of a day number (days since 1970-01-01), as the UTC getters of
  \<^verbatim>\<open>Date\<close> give it: year, month from 1, day of the month.
\<close>

definition civil_from_days :: "int \<Rightarrow> int \<times> int \<times> int" where
  "civil_from_days z0 =
     (let z = z0 + 719468;
          era = z div 146097;
          doe = z - era * 146097;
          yoe = (doe - doe div 1460 + doe div 36524 - doe div 146096) div 365;
          doy = doe - (365 * yoe + yoe div 4 - yoe div 100);
          mp = (5 * doy + 2) div 153;
          dd = doy - (153 * mp + 2) div 5 + 1;
          mm = (if mp < 10 then mp + 3 else mp - 9);
          yy = yoe + era * 400 + (if mm \<le> 2 then 1 else 0)
      in (yy, mm, dd))"

fun pad :: "nat \<Rightarrow> nat \<Rightarrow> string" where
  "pad 0 n = []"
| "pad (Suc k) n = pad k (n div 10) @ [char_of (48 + n mod 10)]"

text \<open>
  \<^verbatim>\<open>toISOString().slice(0, 10)\<close> of the midnight of a day: \<^verbatim>\<open>YYYY-MM-DD\<close> for the years
  0 to 9999, and the first ten characters of the signed six-digit form otherwise.
\<close>

definition iso_date :: "int \<Rightarrow> string" where
  "iso_date day =
     (case civil_from_days day of
        (y, m, dd) \<Rightarrow>
          if 0 \<le> y \<and> y \<le> 9999
          then pad 4 (nat y) @ ''-'' @ pad 2 (nat m) @ ''-'' @ pad 2 (nat dd)
          else (if y < 0 then ''-'' else ''+'') @ pad 6 (nat \<bar>y\<bar>) @ ''-'' @ pad 2 (nat m))"

text \<open>
  Lines 72-78. \<^verbatim>\<open>setUTCDate(getUTCDate() - (days - 1))\<close> truncates its argument towards
  zero and counts it from the first of the month; a non-finite argument makes the date
  invalid, and \<^verbatim>\<open>toISOString\<close> throws. The result is \<open>(startDateStr, endDateStr)\<close>.
\<close>

definition date_window :: "int \<Rightarrow> jsnum \<Rightarrow> error + string \<times> string" where
  "date_window now days =
     (let today = now div 86400000;
          endDateStr = iso_date today
      in case days of
           Fin r \<Rightarrow>
             (let dom = snd (snd (civil_from_days today));
                  x = real_of_int dom - (r - 1);
                  dt = (if 0 \<le> x then \<lfloor>x\<rfloor> else \<lceil>x\<rceil>)
              in Inr (iso_date (today - dom + dt), endDateStr))
         | _ \<Rightarrow> Inl RangeError)"

text \<open>
  The handler of lines 63-113. From outside come the clock, the store's failures of the
  message query and of the insert, and the summarizer's answer. \<^verbatim>\<open>summarize\<close>
  (lines 37-61) does not look at the status of the answer: the request is rejected, or
  the body is not JSON, or it is the JSON value \<open>j\<close>. Every call of \<^verbatim>\<open>summarize\<close>
  is logged with the texts and the day count it is given; the prompt it builds from them
  is not modelled. \<open>rnd\<close> rounds the arithmetic of line 90 to doubles.

  Modelled from the spec: the schema of \<^verbatim>\<open>summaries\<close> is not part of the sources; the
  pair of dates is unique, so an insert of a stored pair is the error 23505.
\<close>

datatype fetched = FetchThrew | JsonThrew | Parsed json

record senv =
  s_clock :: int
  query_fault :: "error option"
  summarizer_reply :: fetched
  store_fault :: "error option"

datatype sm_response = SmForbidden | SmSummary summary | SmError error

definition summarize :: "fetched \<Rightarrow> error + json" where
  "summarize r =
     (case r of
        FetchThrew \<Rightarrow> Inl FetchFailed
      | JsonThrew \<Rightarrow> Inl SyntaxError
      | Parsed j \<Rightarrow>
          Inr (nullish (opt_prop (opt_prop (opt_idx0 (opt_prop (Some j) ''choices'')) ''message'')
                          ''content'')
                 (JStr ''_(empty)_'')))"

definition serve_summarize ::
  "(real \<Rightarrow> real) \<Rightarrow> (string \<Rightarrow> jsnum) \<Rightarrow> string \<Rightarrow> senv \<Rightarrow> string option \<Rightarrow> json option
    \<Rightarrow> db \<Rightarrow> (error + sm_response) \<times> db \<times> (jsstring list \<times> jsnum) list" where
  "serve_summarize rnd Number_str secret ev got body_days d =
     (if got \<noteq> Some secret then (Inr SmForbidden, d, [])
      else
        (let days = Math_max (Fin 1)
                      (Math_min (Fin 30) (Number_json Number_str (nullish body_days (JNum 7))))
         in case date_window (s_clock ev) days of
              Inl e \<Rightarrow> (Inl e, d, [])
            | Inr (startDateStr, endDateStr) \<Rightarrow>
                (case filter (\<lambda>r. start_date r = startDateStr \<and> end_date r = endDateStr)
                        (summaries d) of
                   [cached] \<Rightarrow> (Inr (SmSummary cached), d, [])
                 | _ \<Rightarrow>
                     (case Date_toISOString (time_minus rnd (s_clock ev) days 86400000) of
                        Inl e \<Rightarrow> (Inl e, d, [])
                      | Inr since \<Rightarrow>
                          (case query_fault ev of
                             Some e \<Rightarrow> (Inr (SmError e), d, [])
                           | None \<Rightarrow>
                               (let rows = take 1000 (sort_key created_at
                                             (filter (\<lambda>m. since \<le> created_at m) (messages d)));
                                    calls = [(map msg_text rows, days)]
                                in case summarize (summarizer_reply ev) of
                                     Inl e \<Rightarrow> (Inl e, d, calls)
                                   | Inr md \<Rightarrow>
                                       (let row = \<lparr>start_date = startDateStr,
                                                   end_date = endDateStr, summary_md = md\<rparr>
                                        in case store_fault ev of
                                             Some e \<Rightarrow> (Inr (SmError e), d, calls)
                                           | None \<Rightarrow>
                                               if \<exists>r \<in> set (summaries d).
                                                    start_date r = startDateStr \<and>
                                                    end_date r = endDateStr
                                               then (Inr (SmError (PgError ''23505'')), d, calls)
                                               else (Inr (SmSummary row),
                                                     d\<lparr>summaries := summaries d @ [row]\<rparr>,
                                                     calls))))))))"

section \<open>Example data\<close>

text \<open>The sample rows, requests and upstream answers used to instantiate the theorems.\<close>

definition example_question :: message where
  "example_question =
     \<lparr>msg_id = js ''m1'', telegram_update_id = Some 1, telegram_message_id = Some 11, chat_id = 7,
      from_user_id = ''u1'', msg_text = js ''where is the report?'', created_at = 1710072000000,
      is_question = Some True, needs_reply = Some False, followup = Some False,
      urgency_score = Some 0, topics = None, entities = None, sentiment = None,
      replied = Some False\<rparr>"

definition example_note :: message where
  "example_note =
     \<lparr>msg_id = js ''m2'', telegram_update_id = Some 2, telegram_message_id = Some 12, chat_id = 7,
      from_user_id = ''u1'', msg_text = js ''bought milk'', created_at = 1710000000000,
      is_question = None, needs_reply = None, followup = None,
      urgency_score = None, topics = None, entities = None, sentiment = None,
      replied = Some True\<rparr>"

definition example_db :: db where
  "example_db = \<lparr>messages = [example_note, example_question],
     followups = [js ''m1'' \<mapsto> \<lparr>status = Open, due_at = None, resolved_at = None\<rparr>],
     embeddings = Map.empty, summaries = []\<rparr>"

definition example_update :: update where
  "example_update =
     \<lparr>update_id = Some 1,
      upd_message = Some \<lparr>tg_message_id = Some 11, tg_chat_id = 7,
                          tg_text = Some (js ''where is the report?''), tg_date = Some 1710072000\<rparr>,
      edited_message = None, upd_callback_query = None\<rparr>"

text \<open>
  A new update whose text is a lone slash, and one whose text is a command after a
  no-break space (U+00A0).
\<close>

definition slash_update :: update where
  "slash_update =
     \<lparr>update_id = Some 3,
      upd_message = Some \<lparr>tg_message_id = Some 13, tg_chat_id = 7,
                          tg_text = Some (js ''/''), tg_date = Some 1710072000\<rparr>,
      edited_message = None, upd_callback_query = None\<rparr>"

definition review_update :: update where
  "review_update =
     \<lparr>update_id = Some 4,
      upd_message = Some \<lparr>tg_message_id = Some 14, tg_chat_id = 7,
                          tg_text = Some (0xA0 # js ''/done m1''), tg_date = Some 1710072000\<rparr>,
      edited_message = None, upd_callback_query = None\<rparr>"

text \<open>
  An engine for the examples: no string is a number, and the arithmetic is exact. The
  examples compute with whole numbers of milliseconds, which are doubles.
\<close>

definition example_engine :: engine where
  "example_engine = \<lparr>to_number = (\<lambda>s. NaN), round_double = (\<lambda>x. x), math_exp = exp\<rparr>"

definition example_env :: env where
  "example_env = \<lparr>clock = 1710072000000, user_result = Inr ''u1'', insert_fault = None,
     command_fault = None, internal_fault = None\<rparr>"

text \<open>
  Upstream answers: a chat completion whose content is the given text, and an embedding
  answer carrying the given vector. \<open>parse_example\<close> is \<^verbatim>\<open>JSON.parse\<close> on the three
  texts used below: an object whose \<^verbatim>\<open>is_question\<close> is the string \<^verbatim>\<open>no\<close>, an object
  whose \<^verbatim>\<open>followup\<close> is \<^verbatim>\<open>true\<close>, and the empty object.
\<close>

definition chat_body :: "string \<Rightarrow> json" where
  "chat_body content =
     JObj [(''choices'', JArr [JObj [(''message'', JObj [(''content'', JStr content)])]])]"

definition embed_body :: "json list \<Rightarrow> json" where
  "embed_body v = JObj [(''data'', JArr [JObj [(''embedding'', JArr v)]])]"

definition wrong_type_text :: string where
  "wrong_type_text = ''{'' @ [CHR 0x22] @ ''is_question'' @ [CHR 0x22] @ '':'' @
                     [CHR 0x22] @ ''no'' @ [CHR 0x22] @ ''}''"

definition followup_text :: string where
  "followup_text = ''{'' @ [CHR 0x22] @ ''followup'' @ [CHR 0x22] @ '':true}''"

definition parse_example :: "json \<Rightarrow> json option" where
  "parse_example raw =
     (if raw = JStr wrong_type_text then Some (JObj [(''is_question'', JStr ''no'')])
      else if raw = JStr followup_text then Some (JObj [(''followup'', JBool True)])
      else if raw = JStr ''{}'' then Some (JObj [])
      else None)"

definition wrong_type_env :: cenv where
  "wrong_type_env = \<lparr>load_fault = None, chat_reply = Body (chat_body wrong_type_text),
     update_fault = None, embed_reply = Body (embed_body [JNum 1, JNum 2]), embed_fault = None,
     followup_fault = None\<rparr>"



definition neutral_cls :: cls_update where
  "neutral_cls = \<lparr>u_is_question = False, u_needs_reply = False, u_followup = False,
     u_urgency_score = 0, u_topics = None, u_entities = None, u_sentiment = None\<rparr>"

text \<open>
  A summary request at 2024-03-10T12:00Z against a store that already holds the summary
  of the seven days ending that day.
\<close>

definition cached_summary :: summary where
  "cached_summary = \<lparr>start_date = ''2024-03-04'', end_date = ''2024-03-10'',
     summary_md = JStr ''- report still open''\<rparr>"

definition summary_db :: db where
  "summary_db = example_db\<lparr>summaries := [cached_summary]\<rparr>"

definition summary_env :: senv where
  "summary_env = \<lparr>s_clock = 1710072000000, query_fault = None,
     summarizer_reply = Parsed (chat_body ''- nothing new''), store_fault = None\<rparr>"

section \<open>Strings\<close>

lemma js_eq_iff [simp]: "js s = js t \<longleftrightarrow> s = t"
  by (simp add: js_def inj_map_eq_map inj_of_char)

lemma js_Nil [simp]: "js s = [] \<longleftrightarrow> s = []"
  by (simp add: js_def)

section \<open>Review ranking\<close>



















section \<open>Idempotent ingestion\<close>

lemma fresh_id_nonempty: "fresh_id tbl \<noteq> []"
  by (simp add: fresh_id_def)

lemma insertMessage_fresh:
  assumes "\<not> ref_stored (update_id upd) (messages d)"
    and "Date_toISOString createdAt = Inr created"
  shows "insertMessage None upd chatId fromUserId txt createdAt d =
           (Inr (Some (fresh_id (messages d))),
            d\<lparr>messages := messages d @
               [(new_message_row (update_id upd)
                   (case (case upd_message upd of None \<Rightarrow> None | Some m \<Rightarrow> tg_message_id m) of
                      Some i \<Rightarrow> Some i
                    | None \<Rightarrow> (case edited_message upd of None \<Rightarrow> None | Some m \<Rightarrow> tg_message_id m))
                   chatId fromUserId txt created)\<lparr>msg_id := fresh_id (messages d)\<rparr>]\<rparr>)"
  using assms
  by (simp add: insertMessage_def messages_insert_def new_message_row_def)

lemma insertMessage_dup:
  assumes "ref_stored (update_id upd) (messages d)"
    and "Date_toISOString createdAt = Inr created"
  shows "insertMessage None upd chatId fromUserId txt createdAt d = (Inr None, d)"
  using assms
  by (simp add: insertMessage_def messages_insert_def new_message_row_def)

text \<open>
  C1, as the code has it. When the external reference of the incoming update is already
  stored (and the message carries a valid time), no row is added, the collision 23505 is
  not rethrown, and the call returns \<^verbatim>\<open>null\<close>; the handler reads that \<^verbatim>\<open>null\<close> as
  "not new".
\<close>

theorem insertMessage_duplicate:
  assumes "ref_stored (update_id upd) (messages d)"
    and "Date_toISOString createdAt = Inr created"
  shows "insertMessage None upd chatId fromUserId txt createdAt d = (Inr None, d)"
  using assms
  by (simp add: insertMessage_def messages_insert_def new_message_row_def)

theorem insertMessage_duplicate_witness:
  "ref_stored (update_id example_update) (messages example_db) \<and>
   Date_toISOString (Fin 1710072000000) = Inr 1710072000000 \<and>
   insertMessage None example_update 7 ''u1'' (js ''where is the report?'') (Fin 1710072000000)
     example_db = (Inr None, example_db)"
proof -
  have r: "ref_stored (update_id example_update) (messages example_db)"
    by (simp add: ref_stored_def example_update_def example_db_def example_question_def)
  have t: "Date_toISOString (Fin 1710072000000) = Inr 1710072000000"
    by (simp add: Date_toISOString_def)
  from insertMessage_duplicate [OF r t] r t show ?thesis by blast
qed

text \<open>
  The sample update is a second delivery of the stored question: the call does not return
  the id of the stored row.
\<close>

theorem insertMessage_duplicate_counterexample:
  "telegram_update_id example_question = update_id example_update \<and>
   example_question \<in> set (messages example_db) \<and>
   fst (insertMessage None example_update 7 ''u1'' (js ''where is the report?'') (Fin 1710072000000)
          example_db) \<noteq> Inr (Some (msg_id example_question))"
proof -
  have r: "ref_stored (update_id example_update) (messages example_db)"
    by (simp add: ref_stored_def example_update_def example_db_def example_question_def)
  have t: "Date_toISOString (Fin 1710072000000) = Inr 1710072000000"
    by (simp add: Date_toISOString_def)
  have "insertMessage None example_update 7 ''u1'' (js ''where is the report?'') (Fin 1710072000000)
     example_db = (Inr None, example_db)"
    using r t by (simp add: insertMessage_def messages_insert_def new_message_row_def)
  moreover have "telegram_update_id example_question = update_id example_update"
    by (simp add: example_update_def example_question_def)
  moreover have "example_question \<in> set (messages example_db)"
    by (simp add: example_db_def)
  ultimately show ?thesis by simp
qed

section \<open>Follow-up actions\<close>

lemma handleDone_followups:
  "followups (handleDone now i d) =
     (case followups d i of
        None \<Rightarrow> followups d
      | Some f \<Rightarrow> (followups d)(i \<mapsto> f\<lparr>status := Done, resolved_at := Some now\<rparr>))"
  by (simp add: handleDone_def)

lemma handleDone_messages:
  "messages (handleDone now i d) =
     map (\<lambda>m. if msg_id m = i then m\<lparr>replied := Some True\<rparr> else m) (messages d)"
  by (simp add: handleDone_def)

text \<open>
  C5, as the code has it. Resolving twice leaves an existing follow-up of the id done, with
  the \<open>resolved_at\<close> of the second call, and the message replied; \<open>handleDone\<close> has no
  failing branch.
\<close>

theorem handleDone_twice:
  assumes "followups d i = Some f"
  shows "followups (handleDone now2 i (handleDone now1 i d)) i =
           Some (f\<lparr>status := Done, resolved_at := Some now2\<rparr>) \<and>
         (\<forall>m \<in> set (messages (handleDone now2 i (handleDone now1 i d))).
            msg_id m = i \<longrightarrow> replied m = Some True)"
proof -
  have a: "followups (handleDone now1 i d) i = Some (f\<lparr>status := Done, resolved_at := Some now1\<rparr>)"
    using assms by (simp add: handleDone_followups)
  have "followups (handleDone now2 i (handleDone now1 i d)) i =
           Some (f\<lparr>status := Done, resolved_at := Some now2\<rparr>)"
    by (simp add: handleDone_followups [of now2] a)
  moreover have "\<forall>m \<in> set (messages (handleDone now2 i (handleDone now1 i d))).
            msg_id m = i \<longrightarrow> replied m = Some True"
  proof (intro ballI impI)
    fix m
    assume m: "m \<in> set (messages (handleDone now2 i (handleDone now1 i d)))" and i: "msg_id m = i"
    from m obtain m0 where
      "m = (if msg_id m0 = i then m0\<lparr>replied := Some True\<rparr> else m0)"
      unfolding handleDone_messages [of now2] by (auto simp only: set_map)
    with i show "replied m = Some True"
      by (cases "msg_id m0 = i") simp_all
  qed
  ultimately show ?thesis by (rule conjI)
qed

theorem handleDone_twice_witness:
  "followups example_db (js ''m1'') = Some \<lparr>status = Open, due_at = None, resolved_at = None\<rparr> \<and>
   followups (handleDone 200 (js ''m1'') (handleDone 100 (js ''m1'') example_db)) (js ''m1'') =
     Some \<lparr>status = Done, due_at = None, resolved_at = Some 200\<rparr> \<and>
   example_question\<lparr>replied := Some True\<rparr> \<in>
     set (messages (handleDone 200 (js ''m1'') (handleDone 100 (js ''m1'') example_db))) \<and>
   replied (example_question\<lparr>replied := Some True\<rparr>) = Some True"
proof -
  have f: "followups example_db (js ''m1'') = Some \<lparr>status = Open, due_at = None, resolved_at = None\<rparr>"
    by (simp add: example_db_def)
  have m: "example_question\<lparr>replied := Some True\<rparr> \<in>
     set (messages (handleDone 200 (js ''m1'') (handleDone 100 (js ''m1'') example_db)))"
    by (simp add: handleDone_def example_db_def example_question_def example_note_def)
  from handleDone_twice [OF f, of 200 100] f m show ?thesis by simp
qed

text \<open>After the second call the \<open>resolved_at\<close> of the first call is gone.\<close>

theorem handleDone_twice_counterexample:
  "resolved_at (the (followups (handleDone 100 (js ''m1'') example_db) (js ''m1''))) = Some 100 \<and>
   resolved_at (the (followups (handleDone 200 (js ''m1'') (handleDone 100 (js ''m1'') example_db)) (js ''m1'')))
     \<noteq> Some 100"
  by (simp add: handleDone_def example_db_def)

lemma handleSnooze_finite:
  assumes "\<bar>rnd (real_of_int now + rnd (r * 3600000))\<bar> \<le> 8640000000000000"
  shows "handleSnooze rnd now (Some i) (Fin r) d =
           Inr (d\<lparr>followups :=
                  followups_upsert i Open
                    (Some (Some (if 0 \<le> rnd (real_of_int now + rnd (r * 3600000))
                                 then \<lfloor>rnd (real_of_int now + rnd (r * 3600000))\<rfloor>
                                 else \<lceil>rnd (real_of_int now + rnd (r * 3600000))\<rceil>)))
                    (followups d)\<rparr>)"
  using assms by (simp add: handleSnooze_def time_plus_def Date_toISOString_def)

lemma followups_upsert_due:
  "\<exists>f. followups_upsert i Open (Some (Some t)) tbl i = Some f \<and> status f = Open \<and>
       due_at f = Some t"
  by (cases "tbl i") (simp_all add: followups_upsert_def)

lemma snooze_seq_append:
  "snooze_seq rnd i (cs @ cs') d = snooze_seq rnd i cs' (snooze_seq rnd i cs d)"
  by (induction cs arbitrary: d) auto

lemma trunc_whole:
  assumes "rnd (real_of_int (h * 3600000)) = real_of_int (h * 3600000)"
    and "rnd (real_of_int (now + h * 3600000)) = real_of_int (now + h * 3600000)"
  shows "(if 0 \<le> rnd (real_of_int now + rnd (real_of_int h * 3600000))
          then \<lfloor>rnd (real_of_int now + rnd (real_of_int h * 3600000))\<rfloor>
          else \<lceil>rnd (real_of_int now + rnd (real_of_int h * 3600000))\<rceil>) = now + h * 3600000"
proof -
  have a: "real_of_int h * 3600000 = real_of_int (h * 3600000)" by simp
  have b: "real_of_int now + real_of_int (h * 3600000) = real_of_int (now + h * 3600000)"
    by simp
  show ?thesis
    unfolding a assms(1) b assms(2)
    by (simp only: floor_of_int ceiling_of_int if_cancel)
qed

text \<open>
  C6. After any sequence of snooze requests for an id, a further snooze with a finite delay
  of \<open>r\<close> hours whose due time is a valid date leaves the follow-up of that id open with
  \<open>due_at\<close> the instant the code computes for that last request: the double sum of
  \<open>now\<close> and \<open>r\<close> hours in milliseconds, cut to whole milliseconds. For a whole number
  of hours, where the product and the sum are whole numbers that doubles hold exactly,
  this is exactly \<open>now + h * 3600000\<close>. Earlier delays do not add up.
\<close>

theorem snooze_last_wins:
  assumes "\<bar>rnd (real_of_int now + rnd (r * 3600000))\<bar> \<le> 8640000000000000"
  shows "\<exists>f. followups (snooze_seq rnd i (cs @ [(now, Fin r)]) d) i = Some f \<and>
             status f = Open \<and>
             due_at f = Some (if 0 \<le> rnd (real_of_int now + rnd (r * 3600000))
                              then \<lfloor>rnd (real_of_int now + rnd (r * 3600000))\<rfloor>
                              else \<lceil>rnd (real_of_int now + rnd (r * 3600000))\<rceil>) \<and>
             (\<forall>h. r = real_of_int h \<and>
                  rnd (real_of_int (h * 3600000)) = real_of_int (h * 3600000) \<and>
                  rnd (real_of_int (now + h * 3600000)) = real_of_int (now + h * 3600000) \<longrightarrow>
                  due_at f = Some (now + h * 3600000))"
proof -
  let ?t = "if 0 \<le> rnd (real_of_int now + rnd (r * 3600000))
            then \<lfloor>rnd (real_of_int now + rnd (r * 3600000))\<rfloor>
            else \<lceil>rnd (real_of_int now + rnd (r * 3600000))\<rceil>"
  from followups_upsert_due [of i ?t "followups (snooze_seq rnd i cs d)"]
  obtain f where f: "followups_upsert i Open (Some (Some ?t)) (followups (snooze_seq rnd i cs d)) i
      = Some f" "status f = Open" "due_at f = Some ?t"
    by blast
  have "followups (snooze_seq rnd i (cs @ [(now, Fin r)]) d) i = Some f"
    using f(1) by (simp add: snooze_seq_append handleSnooze_finite [of rnd now r, OF assms])
  moreover have "\<forall>h. r = real_of_int h \<and>
                  rnd (real_of_int (h * 3600000)) = real_of_int (h * 3600000) \<and>
                  rnd (real_of_int (now + h * 3600000)) = real_of_int (now + h * 3600000) \<longrightarrow>
                  due_at f = Some (now + h * 3600000)"
  proof (intro allI impI, elim conjE)
    fix h assume h: "r = real_of_int h"
      and e1: "rnd (real_of_int (h * 3600000)) = real_of_int (h * 3600000)"
      and e2: "rnd (real_of_int (now + h * 3600000)) = real_of_int (now + h * 3600000)"
    show "due_at f = Some (now + h * 3600000)"
      using f(3) unfolding h by (simp only: trunc_whole [OF e1 e2])
  qed
  ultimately show ?thesis using f(2,3) by blast
qed

text \<open>
  Snoozing the sample follow-up for 24 hours and, a little later, for 1 hour, in exact
  arithmetic: every number involved is a whole number of milliseconds.
\<close>

theorem snooze_last_wins_witness:
  "\<bar>(\<lambda>x. x) (real_of_int 1710072000000 + (\<lambda>x. x) (1 * 3600000))\<bar> \<le> (8640000000000000::real) \<and>
   (1::real) = real_of_int 1 \<and>
   (\<exists>f. followups (snooze_seq (\<lambda>x. x) (js ''m1'')
                     ([(1710071000000, Fin 24)] @ [(1710072000000, Fin 1)])
                     example_db) (js ''m1'') = Some f \<and>
        status f = Open \<and> due_at f = Some (1710072000000 + 1 * 3600000) \<and>
        due_at f \<noteq> Some (1710072000000 + 25 * 3600000))"
proof -
  have r: "\<bar>(\<lambda>x. x) (real_of_int 1710072000000 + (\<lambda>x. x) (1 * 3600000))\<bar>
             \<le> (8640000000000000::real)"
    by simp
  from snooze_last_wins [of "\<lambda>x. x" 1710072000000 1 "js ''m1''"
      "[(1710071000000, Fin 24)]" example_db, OF r]
  obtain f where f: "followups (snooze_seq (\<lambda>x. x) (js ''m1'') ([(1710071000000, Fin 24)] @
        [(1710072000000, Fin 1)]) example_db) (js ''m1'') = Some f"
     "status f = Open"
     "\<forall>h. (1::real) = real_of_int h \<and>
          (\<lambda>x. x) (real_of_int (h * 3600000)) = real_of_int (h * 3600000) \<and>
          (\<lambda>x. x) (real_of_int (1710072000000 + h * 3600000)) =
            real_of_int (1710072000000 + h * 3600000) \<longrightarrow>
          due_at f = Some (1710072000000 + h * 3600000)"
    by blast
  from f(3) [rule_format, of 1] have "due_at f = Some (1710072000000 + 1 * 3600000)"
    by simp
  with f(1,2) r show ?thesis by auto
qed

section \<open>Commands and the classification trigger\<close>

lemma run_command_no_classify:
  "AiClassify i \<notin> set (snd (snd (run_command E ev name args d)))"
  by (simp add: run_command_def Let_def split: sum.splits)

lemma run_command_rows:
  "map (\<lambda>m. (msg_id m, msg_text m)) (messages (fst (snd (run_command E ev name args d)))) =
   map (\<lambda>m. (msg_id m, msg_text m)) (messages d)"
  by (auto simp: run_command_def Let_def handleDone_def handleSnooze_def
      split: sum.splits option.splits)

lemma serve_webhook_message:
  assumes "tgHeader = Some secret"
    and "upd_callback_query upd = None"
    and "(case upd_message upd of Some m \<Rightarrow> Some m | None \<Rightarrow> edited_message upd) = Some msg"
    and "tg_text msg = Some txt"
    and "user_result ev = Inr uid"
    and "insertMessage (insert_fault ev) upd (tg_chat_id msg) uid txt
           (Fin (real_of_int ((case tg_date msg of Some s \<Rightarrow> s | None \<Rightarrow> clock ev div 1000) * 1000))) d
         = (Inr insertedId, d1)"
  shows "serve_webhook E secret ev tgHeader upd d =
     (if is_command txt then
        (case run_command E ev (the_default [] (fst (parseCommand txt)))
                (snd (parseCommand txt)) d1 of
           (Some e, d2, calls) \<Rightarrow> (Inl e, d2, calls)
         | (None, d2, calls) \<Rightarrow> (Inr OkTrue, d2, calls))
      else
        (case insertedId of
           None \<Rightarrow> (Inr OkTrue, d1, [])
         | Some i \<Rightarrow>
             if i = [] then (Inr OkTrue, d1, [])
             else
               (case internal_fault ev of
                  Some e \<Rightarrow> (Inl e, d1, [AiClassify i])
                | None \<Rightarrow> (Inr OkTrue, d1, [AiClassify i]))))"
  using assms
  by (simp add: serve_webhook_def split: prod.splits)


lemma command_result:
  "(case run_command E ev name args d1 of
      (Some e, d2, calls) \<Rightarrow> (Inl e, d2, calls)
    | (None, d2, calls) \<Rightarrow> (Inr OkTrue, d2, calls)) = (r, d', cs) \<Longrightarrow>
   d' = fst (snd (run_command E ev name args d1)) \<and>
   cs = snd (snd (run_command E ev name args d1))"
  by (auto split: prod.splits option.splits)

text \<open>
  C10, as the code has it. For an authorised update that carries a text message, with the
  user stored, the store available and a valid message time: the message row is inserted
  unless its external reference is already stored, whether or not the text is a command;
  and the classifier is called exactly when the text is not a command and the insert
  gave a fresh id. A command is a text whose first token is a slash followed by at least
  one character.
\<close>

theorem webhook_classify_trigger:
  assumes "tgHeader = Some secret"
    and "upd_callback_query upd = None"
    and "(case upd_message upd of Some m \<Rightarrow> Some m | None \<Rightarrow> edited_message upd) = Some msg"
    and "tg_text msg = Some txt"
    and "user_result ev = Inr uid"
    and "insert_fault ev = None"
    and "Date_toISOString
           (Fin (real_of_int ((case tg_date msg of Some s \<Rightarrow> s | None \<Rightarrow> clock ev div 1000) * 1000)))
         = Inr created"
  shows "(\<not> ref_stored (update_id upd) (messages d) \<longrightarrow>
            (fresh_id (messages d), txt) \<in>
              set (map (\<lambda>m. (msg_id m, msg_text m))
                     (messages (fst (snd (serve_webhook E secret ev tgHeader upd d)))))) \<and>
         (\<forall>i. AiClassify i \<in> set (snd (snd (serve_webhook E secret ev tgHeader upd d)))
              \<longleftrightarrow> \<not> is_command txt \<and> \<not> ref_stored (update_id upd) (messages d) \<and>
                   i = fresh_id (messages d))"
proof (cases "ref_stored (update_id upd) (messages d)")
  case True
  from insertMessage_dup [OF True assms(7)] assms(6)
  have ins: "insertMessage (insert_fault ev) upd (tg_chat_id msg) uid txt
           (Fin (real_of_int ((case tg_date msg of Some s \<Rightarrow> s | None \<Rightarrow> clock ev div 1000) * 1000))) d
         = (Inr None, d)" by simp
  note sw = serve_webhook_message [OF assms(1-5) ins, of E]
  show ?thesis
  proof (cases "is_command txt")
    case c: True
    obtain r d' cs where R: "serve_webhook E secret ev tgHeader upd d = (r, d', cs)"
      by (cases "serve_webhook E secret ev tgHeader upd d") auto
    from sw c R command_result have "cs = snd (snd (run_command E ev
        (the_default [] (fst (parseCommand txt))) (snd (parseCommand txt)) d))"
      by (metis (no_types, lifting))
    then show ?thesis using True c R run_command_no_classify by simp
  next
    case False
    then show ?thesis using True sw by simp
  qed
next
  case nr: False
  let ?row = "(new_message_row (update_id upd)
                   (case (case upd_message upd of None \<Rightarrow> None | Some m \<Rightarrow> tg_message_id m) of
                      Some i \<Rightarrow> Some i
                    | None \<Rightarrow> (case edited_message upd of None \<Rightarrow> None | Some m \<Rightarrow> tg_message_id m))
                   (tg_chat_id msg) uid txt created)\<lparr>msg_id := fresh_id (messages d)\<rparr>"
  let ?d1 = "d\<lparr>messages := messages d @ [?row]\<rparr>"
  from insertMessage_fresh [OF nr assms(7)] assms(6)
  have ins: "insertMessage (insert_fault ev) upd (tg_chat_id msg) uid txt
           (Fin (real_of_int ((case tg_date msg of Some s \<Rightarrow> s | None \<Rightarrow> clock ev div 1000) * 1000))) d
         = (Inr (Some (fresh_id (messages d))), ?d1)" by simp
  note sw = serve_webhook_message [OF assms(1-5) ins, of E]
  have row: "(fresh_id (messages d), txt) \<in> set (map (\<lambda>m. (msg_id m, msg_text m)) (messages ?d1))"
    by (simp add: new_message_row_def)
  show ?thesis
  proof (cases "is_command txt")
    case c: True
    obtain r d' cs where R: "serve_webhook E secret ev tgHeader upd d = (r, d', cs)"
      by (cases "serve_webhook E secret ev tgHeader upd d") auto
    from sw c R command_result
    have "d' = fst (snd (run_command E ev
        (the_default [] (fst (parseCommand txt))) (snd (parseCommand txt)) ?d1)) \<and>
      cs = snd (snd (run_command E ev
        (the_default [] (fst (parseCommand txt))) (snd (parseCommand txt)) ?d1))"
      by (metis (no_types, lifting))
    then show ?thesis using c R run_command_no_classify row
      by (simp only: fst_conv snd_conv run_command_rows) simp
  next
    case False
    then show ?thesis using nr sw row fresh_id_nonempty
      by (auto split: option.splits)
  qed
qed


lemma date_ex: "Date_toISOString (Fin (real_of_int (1710072000 * 1000))) = Inr 1710072000000"
  by (simp add: Date_toISOString_def)

text \<open>
  The command \<^verbatim>\<open>/done m1\<close> after a no-break space, arriving as a new update: the
  space is trimmed and the text is a command.
\<close>

theorem webhook_classify_trigger_witness:
  "Date_toISOString (Fin (real_of_int (1710072000 * 1000))) = Inr 1710072000000 \<and>
   \<not> ref_stored (update_id review_update) (messages example_db) \<and>
   is_command (0xA0 # js ''/done m1'') \<and>
   (fresh_id (messages example_db), (0xA0 # js ''/done m1'')) \<in>
      set (map (\<lambda>m. (msg_id m, msg_text m))
        (messages (fst (snd (serve_webhook example_engine ''secret'' example_env (Some ''secret'')
           review_update example_db))))) \<and>
   (\<forall>i. AiClassify i \<notin> set (snd (snd (serve_webhook example_engine ''secret'' example_env
           (Some ''secret'') review_update example_db))))"
proof -
  have t: "Date_toISOString
           (Fin (real_of_int ((case tg_date \<lparr>tg_message_id = Some 14, tg_chat_id = 7,
                          tg_text = Some (0xA0 # js ''/done m1''), tg_date = Some 1710072000\<rparr> of Some s \<Rightarrow> s | None \<Rightarrow> clock example_env div 1000) * 1000)))
         = Inr 1710072000000"
    by (simp add: Date_toISOString_def)
  have n: "\<not> ref_stored (update_id review_update) (messages example_db)"
    by (simp add: ref_stored_def review_update_def example_db_def example_question_def
        example_note_def)
  have c: "is_command (0xA0 # js ''/done m1'')"
    by (simp add: is_command_def parseCommand_def trim_def is_space_def js_def)
  from webhook_classify_trigger [of "Some ''secret''" "''secret''" review_update
      "\<lparr>tg_message_id = Some 14, tg_chat_id = 7,
                          tg_text = Some (0xA0 # js ''/done m1''), tg_date = Some 1710072000\<rparr>"
      "0xA0 # js ''/done m1''" example_env "''u1''" 1710072000000 example_db example_engine, OF _ _ _ _ _ _ t]
  have "(\<not> ref_stored (update_id review_update) (messages example_db) \<longrightarrow>
            (fresh_id (messages example_db), (0xA0 # js ''/done m1'')) \<in>
              set (map (\<lambda>m. (msg_id m, msg_text m))
                     (messages (fst (snd (serve_webhook example_engine ''secret'' example_env (Some ''secret'') review_update example_db)))))) \<and>
         (\<forall>i. AiClassify i \<in> set (snd (snd (serve_webhook example_engine ''secret'' example_env (Some ''secret'') review_update example_db)))
              \<longleftrightarrow> \<not> is_command (0xA0 # js ''/done m1'') \<and> \<not> ref_stored (update_id review_update) (messages example_db) \<and>
                   i = fresh_id (messages example_db))"
    by (simp add: review_update_def example_env_def)
  with n c date_ex show ?thesis by blast
qed

text \<open>
  A new update whose text is the lone slash: its first token begins with a slash, and the
  classifier is called for it.
\<close>

theorem webhook_slash_counterexample:
  "hd (split_ws (trim (js ''/''))) = (js ''/'') \<and>
   snd (snd (serve_webhook example_engine ''secret'' example_env (Some ''secret'') slash_update
               example_db)) = [AiClassify (fresh_id (messages example_db))]"
proof -
  let ?msg = "\<lparr>tg_message_id = Some 13, tg_chat_id = 7, tg_text = Some (js ''/''),
                tg_date = Some 1710072000\<rparr>"
  have t: "Date_toISOString (Fin 1710072000000) = Inr 1710072000000"
    by (simp add: Date_toISOString_def)
  have n: "\<not> ref_stored (update_id slash_update) (messages example_db)"
    by (simp add: ref_stored_def slash_update_def example_db_def example_question_def
        example_note_def)
  from insertMessage_fresh [OF n t, of 7 "''u1''" "js ''/''"]
  obtain D where i: "insertMessage None slash_update 7 ''u1'' (js ''/'') (Fin 1710072000000)
                       example_db = (Inr (Some (fresh_id (messages example_db))), D)"
    by blast
  have s: "hd (split_ws (trim (js ''/''))) = (js ''/'') \<and> \<not> is_command (js ''/'')"
    by (simp add: is_command_def parseCommand_def trim_def is_space_def js_def)
  have f: "fresh_id (messages example_db) \<noteq> []" by (simp add: fresh_id_def)
  have "serve_webhook example_engine ''secret'' example_env (Some ''secret'') slash_update example_db =
        (if is_command (js ''/'') then
           (case run_command example_engine example_env (the_default [] (fst (parseCommand (js ''/''))))
                   (snd (parseCommand (js ''/''))) D of
              (Some e, d2, calls) \<Rightarrow> (Inl e, d2, calls)
            | (None, d2, calls) \<Rightarrow> (Inr OkTrue, d2, calls))
         else
           (case Some (fresh_id (messages example_db)) of
              None \<Rightarrow> (Inr OkTrue, D, [])
            | Some i \<Rightarrow>
                if i = [] then (Inr OkTrue, D, [])
                else
                  (case internal_fault example_env of
                     Some e \<Rightarrow> (Inl e, D, [AiClassify i])
                   | None \<Rightarrow> (Inr OkTrue, D, [AiClassify i]))))"
  proof (rule serve_webhook_message [where msg = ?msg and uid = "''u1''"])
    show "Some ''secret'' = Some ''secret''" by simp
    show "upd_callback_query slash_update = None" by (simp add: slash_update_def)
    show "(case upd_message slash_update of Some m \<Rightarrow> Some m
           | None \<Rightarrow> edited_message slash_update) = Some ?msg"
      by (simp add: slash_update_def)
    show "tg_text ?msg = Some (js ''/'')" by simp
    show "user_result example_env = Inr ''u1''" by (simp add: example_env_def)
    show "insertMessage (insert_fault example_env) slash_update (tg_chat_id ?msg) ''u1'' (js ''/'')
            (Fin (real_of_int ((case tg_date ?msg of Some s \<Rightarrow> s
                                | None \<Rightarrow> clock example_env div 1000) * 1000))) example_db =
          (Inr (Some (fresh_id (messages example_db))), D)"
      using i by (simp add: example_env_def)
  qed
  with s f show ?thesis by (simp add: example_env_def)
qed

section \<open>Embedding dimension\<close>

lemma serve_classify_embeddings:
  "embeddings (snd (serve_classify P N dims secret ev got messageId d)) = embeddings d \<or>
   (\<exists>mid vec. messageId = Some mid \<and> openaiEmbed (embed_reply ev) = Inr vec \<and>
      length (embedding_array N vec) = dims \<and>
      embeddings (snd (serve_classify P N dims secret ev got messageId d)) =
        (embeddings d)(mid \<mapsto> map fin_val (embedding_array N vec)))"
  by (simp add: serve_classify_def Let_def split: option.split list.split sum.split)

text \<open>
  C4. Whatever the embedding service answers, a vector whose length differs from the
  configured dimension is not written to \<^verbatim>\<open>embeddings\<close>; and when every stored vector
  has the configured dimension before a run of the classifier, every stored vector has it
  afterwards.
\<close>

theorem embedding_dimension_guard:
  "(\<forall>vec. openaiEmbed (embed_reply ev) = Inr vec \<and>
          length (embedding_array Number_str vec) \<noteq> dims \<longrightarrow>
      embeddings (snd (serve_classify JSON_parse Number_str dims secret ev got messageId d)) =
        embeddings d) \<and>
   ((\<forall>k v. embeddings d k = Some v \<longrightarrow> length v = dims) \<longrightarrow>
    (\<forall>k v. embeddings (snd (serve_classify JSON_parse Number_str dims secret ev got messageId d)) k
             = Some v \<longrightarrow> length v = dims))"
proof -
  let ?E = "embeddings (snd (serve_classify JSON_parse Number_str dims secret ev got messageId d))"
  note c = serve_classify_embeddings [of JSON_parse Number_str dims secret ev got messageId d]
  have a: "?E = embeddings d"
    if "openaiEmbed (embed_reply ev) = Inr vec" "length (embedding_array Number_str vec) \<noteq> dims"
    for vec
    using c that by auto
  have b: "length v = dims"
    if inv: "\<forall>k v. embeddings d k = Some v \<longrightarrow> length v = dims" and kv: "?E k = Some v" for k v
  proof -
    from c show ?thesis
    proof
      assume "?E = embeddings d"
      with inv kv show ?thesis by simp
    next
      assume "\<exists>mid vec. messageId = Some mid \<and> openaiEmbed (embed_reply ev) = Inr vec \<and>
        length (embedding_array Number_str vec) = dims \<and>
        ?E = (embeddings d)(mid \<mapsto> map fin_val (embedding_array Number_str vec))"
      then obtain mid vec where l: "length (embedding_array Number_str vec) = dims"
        and e: "?E = (embeddings d)(mid \<mapsto> map fin_val (embedding_array Number_str vec))"
        by blast
      show ?thesis
      proof (cases "k = mid")
        case True
        with kv e l show ?thesis by auto
      next
        case False
        with kv e inv show ?thesis by auto
      qed
    qed
  qed
  from a b show ?thesis by blast
qed

text \<open>A two-component answer against the dimension 3.\<close>

lemma embed_short: "openaiEmbed (embed_reply wrong_type_env) = Inr (Some (JArr [JNum 1, JNum 2]))"
  by (simp add: openaiEmbed_def wrong_type_env_def embed_body_def opt_prop_def opt_idx0_def)

theorem embedding_dimension_guard_witness:
  "openaiEmbed (embed_reply wrong_type_env) = Inr (Some (JArr [JNum 1, JNum 2])) \<and>
   length (embedding_array (\<lambda>s. NaN) (Some (JArr [JNum 1, JNum 2]))) \<noteq> 3 \<and>
   embeddings (snd (serve_classify parse_example (\<lambda>s. NaN) 3 ''secret'' wrong_type_env
                      (Some ''secret'') (Some (js ''m1''))
                      (example_db\<lparr>embeddings := [(js ''m2'') \<mapsto> [0, 0, 1]]\<rparr>))) =
     embeddings (example_db\<lparr>embeddings := [(js ''m2'') \<mapsto> [0, 0, 1]]\<rparr>) \<and>
   \<not> (\<exists>k v. embeddings (example_db\<lparr>embeddings := [(js ''m2'') \<mapsto> [0, 0, 1]]\<rparr>) k = Some v \<and>
            length v \<noteq> 3) \<and>
   \<not> (\<exists>k v. embeddings (snd (serve_classify parse_example (\<lambda>s. NaN) 3 ''secret''
                      wrong_type_env (Some ''secret'') (Some (js ''m1''))
                      (example_db\<lparr>embeddings := [(js ''m2'') \<mapsto> [0, 0, 1]]\<rparr>))) k = Some v \<and>
            length v \<noteq> 3)"
proof -
  let ?d = "example_db\<lparr>embeddings := [(js ''m2'') \<mapsto> [0, 0, 1]]\<rparr>"
  have l: "length (embedding_array (\<lambda>s. NaN) (Some (JArr [JNum 1, JNum 2]))) \<noteq> 3"
    by (simp add: embedding_array_def)
  have i: "\<forall>k v. embeddings ?d k = Some v \<longrightarrow> length v = 3"
    by (auto split: if_splits)
  note g = embedding_dimension_guard [of wrong_type_env "\<lambda>s. NaN" 3 parse_example "''secret''"
      "Some ''secret''" "Some (js ''m1'')" ?d]
  from g embed_short l have "embeddings (snd (serve_classify parse_example (\<lambda>s. NaN) 3 ''secret''
      wrong_type_env (Some ''secret'') (Some (js ''m1'')) ?d)) = embeddings ?d"
    by blast
  moreover from g i have "\<forall>k v. embeddings (snd (serve_classify parse_example (\<lambda>s. NaN) 3 ''secret''
      wrong_type_env (Some ''secret'') (Some (js ''m1'')) ?d)) k = Some v \<longrightarrow> length v = 3"
    by blast
  ultimately show ?thesis using embed_short l i by blast
qed

section \<open>Classification defaults\<close>

lemma classify_fields_obj:
  "classify_fields (JObj kvs) = Inr
     \<lparr>u_is_question = truthy (map_of kvs ''is_question''),
      u_needs_reply = truthy (map_of kvs ''needs_reply''),
      u_followup = truthy (map_of kvs ''followup''),
      u_urgency_score = (case map_of kvs ''urgency_score'' of Some (JNum r) \<Rightarrow> r | _ \<Rightarrow> 0),
      u_topics = (case map_of kvs ''topics'' of Some (JArr xs) \<Rightarrow> Some (JArr xs) | _ \<Rightarrow> None),
      u_entities =
        (case map_of kvs ''entities'' of
           Some (JArr xs) \<Rightarrow> Some (JArr xs)
         | Some (JObj ob) \<Rightarrow> Some (JObj ob)
         | _ \<Rightarrow> None),
      u_sentiment = (case map_of kvs ''sentiment'' of Some (JNum r) \<Rightarrow> Some r | _ \<Rightarrow> None)\<rparr>"
  by (simp add: classify_fields_def opt_prop_def)

lemma classify_fields_empty: "classify_fields (JObj []) = Inr neutral_cls"
  by (simp add: classify_fields_obj neutral_cls_def)

lemma classify_fields_nonobj:
  assumes "v \<noteq> JNull" and "\<forall>kvs. v \<noteq> JObj kvs"
  shows "classify_fields v = Inr neutral_cls"
  using assms by (cases v) (simp_all add: classify_fields_def opt_prop_def neutral_cls_def)

lemma serve_classify_completes:
  assumes "got = Some secret" and "mid \<noteq> []" and "load_fault ev = None"
    and "filter (\<lambda>m. msg_id m = mid) (messages d) = [m]"
    and "openaiJSON JSON_parse (chat_reply ev) = Inr cls"
    and "classify_fields cls = Inr upd"
    and "openaiEmbed (embed_reply ev) = Inr vec"
  shows "fst (serve_classify JSON_parse Number_str dims secret ev got (Some mid) d) =
           Inr (Classified upd (length (embedding_array Number_str vec)))"
  using assms by (simp add: serve_classify_def Let_def)

lemma openaiEmbed_returns:
  assumes "embed_reply ev = NotOk \<or> (\<exists>j. embed_reply ev = Body j)"
  shows "\<exists>vec. openaiEmbed (embed_reply ev) = Inr vec"
  using assms by (auto simp: openaiEmbed_def split: option.splits json.splits)

text \<open>
  C8, as the code has it. For an authorised request for a stored message, when the chat
  call answers with a status that is not OK, or with a JSON body whose content does not
  parse, or parses to a value other than \<^verbatim>\<open>null\<close>, and the embedding call answers with
  any status and a JSON body, the handler returns the classification without raising.
  On a status that is not OK, on unparsable content and on a parsed value that is not an
  object every field is neutral. On an object, \<^verbatim>\<open>urgency_score\<close>, \<^verbatim>\<open>topics\<close>,
  \<^verbatim>\<open>entities\<close> and \<^verbatim>\<open>sentiment\<close> fall back to 0 or unset when absent or of the wrong
  type, and each boolean flag is the truthiness of its field: false when the field is
  absent, \<^verbatim>\<open>null\<close>, \<^verbatim>\<open>false\<close>, 0 or the empty string, true for every other value.
\<close>

theorem classify_degrades:
  assumes "got = Some secret" and "mid \<noteq> []" and "load_fault ev = None"
    and "filter (\<lambda>m. msg_id m = mid) (messages d) = [m]"
    and "chat_reply ev = NotOk \<or>
         (\<exists>j. chat_reply ev = Body j \<and> JSON_parse (raw_content j) \<noteq> Some JNull)"
    and "embed_reply ev = NotOk \<or> (\<exists>j. embed_reply ev = Body j)"
  shows "\<exists>upd n.
     fst (serve_classify JSON_parse Number_str dims secret ev got (Some mid) d) =
       Inr (Classified upd n) \<and>
     (chat_reply ev = NotOk \<longrightarrow> upd = neutral_cls) \<and>
     (\<forall>j. chat_reply ev = Body j \<longrightarrow>
        (JSON_parse (raw_content j) = None \<longrightarrow> upd = neutral_cls) \<and>
        (\<forall>v. JSON_parse (raw_content j) = Some v \<longrightarrow>
           ((\<forall>kvs. v \<noteq> JObj kvs) \<longrightarrow> upd = neutral_cls) \<and>
           (\<forall>kvs. v = JObj kvs \<longrightarrow>
              u_is_question upd = truthy (map_of kvs ''is_question'') \<and>
              u_needs_reply upd = truthy (map_of kvs ''needs_reply'') \<and>
              u_followup upd = truthy (map_of kvs ''followup'') \<and>
              u_urgency_score upd =
                (case map_of kvs ''urgency_score'' of Some (JNum r) \<Rightarrow> r | _ \<Rightarrow> 0) \<and>
              u_topics upd =
                (case map_of kvs ''topics'' of Some (JArr xs) \<Rightarrow> Some (JArr xs) | _ \<Rightarrow> None) \<and>
              u_entities upd =
                (case map_of kvs ''entities'' of
                   Some (JArr xs) \<Rightarrow> Some (JArr xs)
                 | Some (JObj ob) \<Rightarrow> Some (JObj ob)
                 | _ \<Rightarrow> None) \<and>
              u_sentiment upd =
                (case map_of kvs ''sentiment'' of Some (JNum r) \<Rightarrow> Some r | _ \<Rightarrow> None))))"
proof -
  from openaiEmbed_returns [OF assms(6)] obtain vec
    where vec: "openaiEmbed (embed_reply ev) = Inr vec" by blast
  note fin = serve_classify_completes [OF assms(1-4) _ _ vec, of JSON_parse _ _ Number_str dims]
  from assms(5) show ?thesis
  proof
    assume n: "chat_reply ev = NotOk"
    then have "openaiJSON JSON_parse (chat_reply ev) = Inr (JObj [])"
      by (simp add: openaiJSON_def)
    from fin [OF this classify_fields_empty] n show ?thesis by auto
  next
    assume "\<exists>j. chat_reply ev = Body j \<and> JSON_parse (raw_content j) \<noteq> Some JNull"
    then obtain j where j: "chat_reply ev = Body j" and nn: "JSON_parse (raw_content j) \<noteq> Some JNull"
      by blast
    show ?thesis
    proof (cases "JSON_parse (raw_content j)")
      case None
      with j have "openaiJSON JSON_parse (chat_reply ev) = Inr (JObj [])"
        by (simp add: openaiJSON_def)
      from fin [OF this classify_fields_empty] j None show ?thesis by auto
    next
      case (Some v)
      with j have o: "openaiJSON JSON_parse (chat_reply ev) = Inr v"
        by (simp add: openaiJSON_def)
      from Some nn have v: "v \<noteq> JNull" by simp
      show ?thesis
      proof (cases "\<exists>kvs. v = JObj kvs")
        case True
        then obtain kvs where k: "v = JObj kvs" by blast
        from fin [OF o classify_fields_obj [of kvs, folded k]] j Some k show ?thesis
          by auto
      next
        case False
        then have f: "\<forall>kvs. v \<noteq> JObj kvs" by simp
        from fin [OF o classify_fields_nonobj [OF v f]] j Some f show ?thesis
          by auto
      qed
    qed
  qed
qed


lemma example_found: "filter (\<lambda>m. msg_id m = (js ''m1'')) (messages example_db) = [example_question]"
  by (simp add: example_db_def example_question_def example_note_def)

lemma wrong_type_parse:
  "chat_reply wrong_type_env = Body (chat_body wrong_type_text) \<and>
   parse_example (raw_content (chat_body wrong_type_text)) =
     Some (JObj [(''is_question'', JStr ''no'')])"
  by (simp add: wrong_type_env_def raw_content_def chat_body_def opt_prop_def opt_idx0_def
      nullish_def parse_example_def)

text \<open>The upstream answer whose \<^verbatim>\<open>is_question\<close> is the string \<^verbatim>\<open>no\<close>.\<close>

theorem classify_degrades_witness:
  "(js ''m1'') \<noteq> [] \<and> load_fault wrong_type_env = None \<and>
   filter (\<lambda>m. msg_id m = (js ''m1'')) (messages example_db) = [example_question] \<and>
   chat_reply wrong_type_env = Body (chat_body wrong_type_text) \<and>
   parse_example (raw_content (chat_body wrong_type_text)) =
     Some (JObj [(''is_question'', JStr ''no'')]) \<and>
   (\<exists>j. embed_reply wrong_type_env = Body j) \<and>
   (\<exists>upd n. fst (serve_classify parse_example (\<lambda>s. NaN) 3 ''secret'' wrong_type_env
                    (Some ''secret'') (Some (js ''m1'')) example_db) = Inr (Classified upd n) \<and>
      u_is_question upd = truthy (Some (JStr ''no'')) \<and> u_urgency_score upd = 0 \<and>
      u_sentiment upd = None)"
proof -
  have l: "load_fault wrong_type_env = None" by (simp add: wrong_type_env_def)
  have e: "\<exists>j. embed_reply wrong_type_env = Body j" by (simp add: wrong_type_env_def)
  have c: "chat_reply wrong_type_env = NotOk \<or>
         (\<exists>j. chat_reply wrong_type_env = Body j \<and> parse_example (raw_content j) \<noteq> Some JNull)"
    using wrong_type_parse by simp
  from classify_degrades [OF refl _ l example_found c disjI2 [OF e],
      where secret = "''secret''" and Number_str = "\<lambda>s. NaN" and dims = 3]
  obtain upd n where r: "fst (serve_classify parse_example (\<lambda>s. NaN) 3 ''secret'' wrong_type_env
                    (Some ''secret'') (Some (js ''m1'')) example_db) = Inr (Classified upd n)"
    and k: "\<forall>j. chat_reply wrong_type_env = Body j \<longrightarrow>
        (parse_example (raw_content j) = None \<longrightarrow> upd = neutral_cls) \<and>
        (\<forall>v. parse_example (raw_content j) = Some v \<longrightarrow>
           ((\<forall>kvs. v \<noteq> JObj kvs) \<longrightarrow> upd = neutral_cls) \<and>
           (\<forall>kvs. v = JObj kvs \<longrightarrow>
              u_is_question upd = truthy (map_of kvs ''is_question'') \<and>
              u_needs_reply upd = truthy (map_of kvs ''needs_reply'') \<and>
              u_followup upd = truthy (map_of kvs ''followup'') \<and>
              u_urgency_score upd =
                (case map_of kvs ''urgency_score'' of Some (JNum r) \<Rightarrow> r | _ \<Rightarrow> 0) \<and>
              u_topics upd =
                (case map_of kvs ''topics'' of Some (JArr xs) \<Rightarrow> Some (JArr xs) | _ \<Rightarrow> None) \<and>
              u_entities upd =
                (case map_of kvs ''entities'' of
                   Some (JArr xs) \<Rightarrow> Some (JArr xs)
                 | Some (JObj ob) \<Rightarrow> Some (JObj ob)
                 | _ \<Rightarrow> None) \<and>
              u_sentiment upd =
                (case map_of kvs ''sentiment'' of Some (JNum r) \<Rightarrow> Some r | _ \<Rightarrow> None)))"
    by auto
  from k wrong_type_parse
  have "u_is_question upd = truthy (map_of [(''is_question'', JStr ''no'')] ''is_question'') \<and>
        u_urgency_score upd =
          (case map_of [(''is_question'', JStr ''no'')] ''urgency_score'' of
             Some (JNum r) \<Rightarrow> r | _ \<Rightarrow> 0) \<and>
        u_sentiment upd =
          (case map_of [(''is_question'', JStr ''no'')] ''sentiment'' of
             Some (JNum r) \<Rightarrow> Some r | _ \<Rightarrow> None)"
    by blast
  then have "u_is_question upd = truthy (Some (JStr ''no'')) \<and> u_urgency_score upd = 0 \<and>
      u_sentiment upd = None"
    by simp
  moreover have "js ''m1'' \<noteq> []" by simp
  ultimately show ?thesis using r l e example_found wrong_type_parse by blast
qed

text \<open>
  A field of the wrong type does not fall back to false: the string \<^verbatim>\<open>no\<close> in
  \<^verbatim>\<open>is_question\<close> is stored as true.
\<close>

theorem classify_wrong_type_counterexample:
  "chat_reply wrong_type_env = Body (chat_body wrong_type_text) \<and>
   parse_example (raw_content (chat_body wrong_type_text)) =
     Some (JObj [(''is_question'', JStr ''no'')]) \<and>
   fst (serve_classify parse_example (\<lambda>s. NaN) 3 ''secret'' wrong_type_env (Some ''secret'')
          (Some (js ''m1'')) example_db) =
     Inr (Classified (neutral_cls\<lparr>u_is_question := True\<rparr>) 2)"
proof -
  have j: "openaiJSON parse_example (chat_reply wrong_type_env) =
             Inr (JObj [(''is_question'', JStr ''no'')])"
    using wrong_type_parse by (simp add: openaiJSON_def)
  have f: "classify_fields (JObj [(''is_question'', JStr ''no'')]) =
             Inr (neutral_cls\<lparr>u_is_question := True\<rparr>)"
    by (simp add: classify_fields_obj neutral_cls_def)
  have v: "openaiEmbed (embed_reply wrong_type_env) = Inr (Some (JArr [JNum 1, JNum 2]))"
    by (simp add: openaiEmbed_def wrong_type_env_def embed_body_def opt_prop_def opt_idx0_def)
  have l: "load_fault wrong_type_env = None" by (simp add: wrong_type_env_def)
  from serve_classify_completes [OF refl _ l example_found j f v,
      where secret = "''secret''" and Number_str = "\<lambda>s. NaN" and dims = 3]
  have "fst (serve_classify parse_example (\<lambda>s. NaN) 3 ''secret'' wrong_type_env (Some ''secret'')
          (Some (js ''m1'')) example_db) =
     Inr (Classified (neutral_cls\<lparr>u_is_question := True\<rparr>) 2)"
    by (simp add: embedding_array_def)
  with wrong_type_parse show ?thesis by blast
qed

text \<open>Content that parses to \<^verbatim>\<open>null\<close> is not covered above: reading its fields throws.\<close>

lemma classify_null_raises:
  assumes "got = Some secret" and "mid \<noteq> []" and "load_fault ev = None"
    and "filter (\<lambda>m. msg_id m = mid) (messages d) = [m]"
    and "chat_reply ev = Body j" and "JSON_parse (raw_content j) = Some JNull"
  shows "serve_classify JSON_parse Number_str dims secret ev got (Some mid) d = (Inl TypeError, d)"
  using assms by (simp add: serve_classify_def openaiJSON_def classify_fields_def)

section \<open>Opening a follow-up\<close>









section \<open>Summary window and cache\<close>

lemma days_clamp:
  assumes "1 \<le> n" and "n \<le> 30"
  shows "Math_max (Fin 1) (Math_min (Fin 30)
           (Number_json Number_str (nullish (Some (JNum (real_of_int n))) (JNum 7)))) =
         Fin (real_of_int n)"
  using assms by (simp add: nullish_def min_def max_def)

lemma date_window_whole:
  "date_window now (Fin (real_of_int n)) =
     Inr (iso_date (now div 86400000 - (n - 1)), iso_date (now div 86400000))"
proof -
  let ?dom = "snd (snd (civil_from_days (now div 86400000)))"
  have e: "real_of_int ?dom - (real_of_int n - 1) = real_of_int (?dom - (n - 1))"
    by simp
  have "(if 0 \<le> real_of_int ?dom - (real_of_int n - 1)
         then \<lfloor>real_of_int ?dom - (real_of_int n - 1)\<rfloor>
         else \<lceil>real_of_int ?dom - (real_of_int n - 1)\<rceil>) = ?dom - (n - 1)"
    unfolding e by (simp only: floor_of_int ceiling_of_int if_cancel)
  moreover have "now div 86400000 - ?dom + (?dom - (n - 1)) = now div 86400000 - (n - 1)"
    by simp
  ultimately show ?thesis
    by (simp only: date_window_def Let_def jsnum.case)
qed

lemma filter_unique_key:
  assumes "distinct (map f xs)" and "r \<in> set xs"
  shows "filter (\<lambda>x. f x = f r) xs = [r]"
  using assms
proof (induction xs)
  case Nil
  then show ?case by simp
next
  case (Cons x xs)
  show ?case
  proof (cases "x = r")
    case True
    with Cons.prems have "f r \<notin> f ` set xs" by simp
    then have "\<forall>y \<in> set xs. f y \<noteq> f r" by (metis imageI)
    then have "filter (\<lambda>x. f x = f r) xs = []" by (simp add: filter_empty_conv)
    with True show ?thesis by simp
  next
    case False
    with Cons.prems have "r \<in> set xs" "f x \<noteq> f r" by auto
    with Cons show ?thesis by simp
  qed
qed

lemma iso_examples: "iso_date 19786 = ''2024-03-04'' \<and> iso_date 19792 = ''2024-03-10''"
  by code_simp

text \<open>
  C7. For an authorised summary request with \<open>days = n\<close>, \<open>1 \<le> n \<le> 30\<close>, the window
  ends on the UTC date of the clock and starts \<open>n - 1\<close> days earlier; at 2024-03-10T12:00Z
  with 7 days it is 2024-03-04 to 2024-03-10. When the store, in which the pair of dates is
  unique, holds a summary for exactly that pair, the handler returns that row, leaves the
  store unchanged and does not call the summarizer.
\<close>

theorem summary_window_and_cache:
  assumes "1 \<le> n" and "n \<le> 30" and "got = Some secret"
  shows "date_window (s_clock ev)
           (Math_max (Fin 1) (Math_min (Fin 30)
              (Number_json Number_str (nullish (Some (JNum (real_of_int n))) (JNum 7))))) =
           Inr (iso_date (s_clock ev div 86400000 - (n - 1)), iso_date (s_clock ev div 86400000)) \<and>
         (\<forall>r. r \<in> set (summaries d) \<and>
               start_date r = iso_date (s_clock ev div 86400000 - (n - 1)) \<and>
               end_date r = iso_date (s_clock ev div 86400000) \<and>
               distinct (map (\<lambda>r. (start_date r, end_date r)) (summaries d)) \<longrightarrow>
            serve_summarize rnd Number_str secret ev got (Some (JNum (real_of_int n))) d =
              (Inr (SmSummary r), d, [])) \<and>
         date_window 1710072000000 (Fin 7) = Inr (''2024-03-04'', ''2024-03-10'')"
proof -
  note w = date_window_whole [of "s_clock ev" n]
  have a: "date_window (s_clock ev)
           (Math_max (Fin 1) (Math_min (Fin 30)
              (Number_json Number_str (nullish (Some (JNum (real_of_int n))) (JNum 7))))) =
           Inr (iso_date (s_clock ev div 86400000 - (n - 1)), iso_date (s_clock ev div 86400000))"
    unfolding days_clamp [OF assms(1,2)] by (rule w)
  have b: "serve_summarize rnd Number_str secret ev got (Some (JNum (real_of_int n))) d =
              (Inr (SmSummary r), d, [])"
    if r: "r \<in> set (summaries d)"
      "start_date r = iso_date (s_clock ev div 86400000 - (n - 1))"
      "end_date r = iso_date (s_clock ev div 86400000)"
      "distinct (map (\<lambda>r. (start_date r, end_date r)) (summaries d))" for r
  proof -
    have "filter (\<lambda>x. (start_date x, end_date x) = (start_date r, end_date r)) (summaries d) = [r]"
      using filter_unique_key [OF r(4) r(1)] by simp
    then have "filter (\<lambda>x. start_date x = iso_date (s_clock ev div 86400000 - (n - 1)) \<and>
                        end_date x = iso_date (s_clock ev div 86400000)) (summaries d) = [r]"
      using r(2,3) by simp
    then show ?thesis
      using assms(3) a by (simp add: serve_summarize_def)
  qed
  have "date_window 1710072000000 (Fin (real_of_int 7)) =
          Inr (iso_date (1710072000000 div 86400000 - (7 - 1)), iso_date (1710072000000 div 86400000))"
    by (rule date_window_whole)
  then have c: "date_window 1710072000000 (Fin 7) = Inr (''2024-03-04'', ''2024-03-10'')"
    using iso_examples by simp
  from a b c show ?thesis by blast
qed

text \<open>Seven days at 2024-03-10T12:00Z against the store that holds that week's summary.\<close>

theorem summary_window_and_cache_witness:
  "(1::int) \<le> 7 \<and> (7::int) \<le> 30 \<and>
   cached_summary \<in> set (summaries summary_db) \<and>
   start_date cached_summary = iso_date (s_clock summary_env div 86400000 - (7 - 1)) \<and>
   end_date cached_summary = iso_date (s_clock summary_env div 86400000) \<and>
   distinct (map (\<lambda>r. (start_date r, end_date r)) (summaries summary_db)) \<and>
   serve_summarize (\<lambda>x. x) (\<lambda>s. NaN) ''secret'' summary_env (Some ''secret'') (Some (JNum 7)) summary_db =
     (Inr (SmSummary cached_summary), summary_db, [])"
proof -
  have m: "cached_summary \<in> set (summaries summary_db)" by (simp add: summary_db_def)
  have c: "s_clock summary_env div 86400000 = 19792" by (simp add: summary_env_def)
  have s: "start_date cached_summary = iso_date (s_clock summary_env div 86400000 - (7 - 1))"
    unfolding c using iso_examples by (simp add: cached_summary_def)
  have e: "end_date cached_summary = iso_date (s_clock summary_env div 86400000)"
    unfolding c using iso_examples by (simp add: cached_summary_def)
  have d: "distinct (map (\<lambda>r. (start_date r, end_date r)) (summaries summary_db))"
    by (simp add: summary_db_def)
  from summary_window_and_cache [of 7 "Some ''secret''" "''secret''" summary_env "\<lambda>s. NaN"
      summary_db]
  have "\<forall>r. r \<in> set (summaries summary_db) \<and>
               start_date r = iso_date (s_clock summary_env div 86400000 - (7 - 1)) \<and>
               end_date r = iso_date (s_clock summary_env div 86400000) \<and>
               distinct (map (\<lambda>r. (start_date r, end_date r)) (summaries summary_db)) \<longrightarrow>
            serve_summarize (\<lambda>x. x) (\<lambda>s. NaN) ''secret'' summary_env (Some ''secret'')
              (Some (JNum (real_of_int 7))) summary_db =
              (Inr (SmSummary r), summary_db, [])"
    by simp
  with m s e d have "serve_summarize (\<lambda>x. x) (\<lambda>s. NaN) ''secret'' summary_env (Some ''secret'')
              (Some (JNum (real_of_int 7))) summary_db =
              (Inr (SmSummary cached_summary), summary_db, [])"
    by blast
  with m s e d show ?thesis by simp
qed

end
